theory Spec2Isabelle
  imports Complex_Main "HOL-Library.AList"
begin

section \<open>Python values used by the check templates\<close>

text \<open>
  The check plugin templates parse tables of strings into sections, discover services
  from a section and check one item of it.  This theory embeds the parse, discovery and
  check functions of \<open>snmp_check.py\<close>, \<open>snmp_check_multitable.py\<close>, \<open>agent_check_simple.py\<close>
  and \<open>agent_check_advanced.py\<close>, the threshold function of \<open>active_check_executable.py\<close>
  and two checks of \<open>local_check.py\<close>, and proves what their specification claims.

  A cell is a \<open>string\<close>, a row a list of cells, a table a list of rows.  A \<open>char\<close> is a
  code point below 256 (a cell with a code point above 255 is outside the model);
  \<open>str.isdigit\<close> and \<open>int\<close> are modelled on these code points as CPython 3.11 has them,
  with its limit of 4300 digits on a decimal literal.  A Python
  \<open>dict\<close> keeps its keys in insertion order and an assignment to an existing key keeps the
  key's place; this is exactly \<open>AList.update\<close> on an association list, with \<open>map_of\<close> as
  lookup.  Floats are real numbers; they are compared and multiplied, never parsed or
  printed by the model.
\<close>

type_synonym row = "string list"
type_synonym table = "row list"

datatype py_error = ValueError | AttributeError | TypeError

text \<open>The decimal digits \<open>0\<close> to \<open>9\<close>, the only ones that \<open>int\<close> converts.\<close>

definition is_digit :: "char \<Rightarrow> bool" where
  "is_digit c = (48 \<le> (of_char c :: nat) \<and> (of_char c :: nat) \<le> 57)"

text \<open>
  The superscripts two, three and one (U+00B2, U+00B3, U+00B9): digits for \<open>str.isdigit\<close>,
  not for \<open>int\<close>.
\<close>

definition is_superscript_digit :: "char \<Rightarrow> bool" where
  "is_superscript_digit c = ((of_char c :: nat) \<in> {178, 179, 185})"

text \<open>
  The white space that \<open>int\<close> skips at both ends: tab, line feed, vertical tab, form
  feed, carriage return, space, and U+0085 and U+00A0 (not the separators U+001C to
  U+001F).
\<close>

definition is_space :: "char \<Rightarrow> bool" where
  "is_space c = ((of_char c :: nat) \<in> {9, 10, 11, 12, 13, 32, 133, 160})"

text \<open>\<open>str.isdigit()\<close>: a non-empty string of digits.\<close>

definition isdigit :: "string \<Rightarrow> bool" where
  "isdigit s = (s \<noteq> [] \<and> list_all (\<lambda>c. is_digit c \<or> is_superscript_digit c) s)"

text \<open>The argument of \<open>int\<close> without the white space at its ends.\<close>

definition strip :: "string \<Rightarrow> string" where
  "strip s = rev (dropWhile is_space (rev (dropWhile is_space s)))"

text \<open>The digit part of a decimal literal: digits, with single underscores between them.\<close>

fun digits_ok :: "string \<Rightarrow> bool" where
  "digits_ok [] = False"
| "digits_ok [c] = is_digit c"
| "digits_ok (c # d # r) =
     (is_digit c \<and> (if d = CHR ''_'' then digits_ok r else digits_ok (d # r)))"

definition digit_value :: "char \<Rightarrow> nat" where
  "digit_value c = (of_char c :: nat) - 48"

definition decimal_value :: "string \<Rightarrow> nat" where
  "decimal_value s = foldl (\<lambda>acc c. 10 * acc + digit_value c) 0 (filter is_digit s)"

text \<open>\<open>sys.get_int_max_str_digits()\<close>, at its default.\<close>

definition max_str_digits :: nat where
  "max_str_digits = 4300"

text \<open>
  The digit part converted: \<open>None\<close> when it is not well formed or has more digits
  (underscores not counted, leading zeros counted) than the limit.
\<close>

definition decimal_literal :: "string \<Rightarrow> nat option" where
  "decimal_literal s =
     (if digits_ok s \<and> length (filter is_digit s) \<le> max_str_digits
      then Some (decimal_value s) else None)"

text \<open>
  \<open>int(s)\<close> on a string: \<open>None\<close> stands for the \<open>ValueError\<close> that Python raises on a
  string that is not an optionally signed decimal literal within the limit.
\<close>

definition py_int :: "string \<Rightarrow> int option" where
  "py_int s =
     (case strip s of
        [] \<Rightarrow> None
      | c # r \<Rightarrow>
          if c = CHR ''-'' then map_option (\<lambda>n. - int n) (decimal_literal r)
          else if c = CHR ''+'' then map_option int (decimal_literal r)
          else map_option int (decimal_literal (c # r)))"

definition int_of_str :: "string \<Rightarrow> py_error + int" where
  "int_of_str s = (case py_int s of None \<Rightarrow> Inl ValueError | Some v \<Rightarrow> Inr v)"

text \<open>\<open>int(x) if x.isdigit() else 0\<close>; it raises where \<open>isdigit\<close> holds and \<open>int\<close> refuses.\<close>

definition int_if_isdigit :: "string \<Rightarrow> py_error + int" where
  "int_if_isdigit x = (if isdigit x then int_of_str x else Inr 0)"

text \<open>\<open>int(x) if x else 0\<close>\<close>

definition int_if_nonempty :: "string \<Rightarrow> py_error + int" where
  "int_if_nonempty x = (if x \<noteq> [] then int_of_str x else Inr 0)"

text \<open>
  A \<open>for\<close> loop over the rows of a table whose body updates an accumulator and may
  raise: the first exception ends the loop and is the result.
\<close>

fun for_rows :: "('r \<Rightarrow> 'a \<Rightarrow> py_error + 'a) \<Rightarrow> 'r list \<Rightarrow> 'a \<Rightarrow> py_error + 'a" where
  "for_rows body [] acc = Inr acc"
| "for_rows body (r # rs) acc =
     (case body r acc of Inl e \<Rightarrow> Inl e | Inr acc' \<Rightarrow> for_rows body rs acc')"

text \<open>\<open>parsed if parsed else None\<close>\<close>

definition nonempty_or_None :: "('k \<times> 'v) list \<Rightarrow> ('k \<times> 'v) list option" where
  "nonempty_or_None parsed = (if parsed \<noteq> [] then Some parsed else None)"

text \<open>Decimal rendering of an integer, as \<open>str\<close> and f-strings do.\<close>

function str_nat :: "nat \<Rightarrow> string" where
  "str_nat n =
     (if n < 10 then [char_of (48 + n)] else str_nat (n div 10) @ [char_of (48 + n mod 10)])"
  by pat_completeness auto
termination
  by (relation "measure id") auto

definition str_int :: "int \<Rightarrow> string" where
  "str_int i = (if i < 0 then CHR ''-'' # str_nat (nat (- i)) else str_nat (nat i))"

section \<open>The agent based API: states, results, metrics, services\<close>

datatype state = OK | WARN | CRIT | UNKNOWN

text \<open>
  A \<open>Result\<close> is built with \<open>summary=\<close> or with \<open>notice=\<close>; the two keywords are kept apart,
  since a notice of an \<open>OK\<close> result is shown in the details only.
\<close>

datatype result_text = Summary string | Notice string

datatype yielded = Result state result_text | Metric string real

datatype service = Service "string option" "(string \<times> int) list"

text \<open>
  What the templates import and do not define: \<open>get_rate\<close> (with the value store it
  updates; \<open>None\<close> stands for \<open>GetRateError\<close>), the render functions, \<open>check_levels\<close>
  and the float formatting \<open>f"{x:.2f}"\<close>.  They are parameters of the check functions,
  as are the value store and the time of the call.  A check function returns what it
  yields, in order, and the value store it leaves behind.  A section argument is \<open>None\<close>
  or a dict; a function that dereferences it without a guard raises on \<open>None\<close>.
\<close>

record 'lv levels_args =
  metric_name :: string
  levels_upper :: "'lv option"
  levels_lower :: "'lv option"
  label :: string
  render_func :: "real \<Rightarrow> string"
  boundaries :: "(real \<times> real) option"

record ('vs, 'lv) agent_based =
  get_rate :: "'vs \<Rightarrow> string \<Rightarrow> real \<Rightarrow> int \<Rightarrow> real option \<times> 'vs"
  networkbandwidth :: "real \<Rightarrow> string"
  percent :: "real \<Rightarrow> string"
  format_2f :: "real \<Rightarrow> string"
  check_levels :: "real \<Rightarrow> 'lv levels_args \<Rightarrow> yielded list"

definition oper_status_map :: "int \<Rightarrow> (state \<times> string) option" where
  "oper_status_map k =
     (if k = 1 then Some (OK, ''up'')
      else if k = 2 then Some (CRIT, ''down'')
      else if k = 3 then Some (WARN, ''testing'')
      else if k = 4 then Some (UNKNOWN, ''unknown'')
      else if k = 5 then Some (WARN, ''dormant'')
      else if k = 6 then Some (CRIT, ''notPresent'')
      else if k = 7 then Some (CRIT, ''lowerLayerDown'')
      else None)"


section \<open>snmp_check.py: interface status\<close>

record status_entry =
  status_index :: string
  status_admin_status :: int
  status_oper_status :: int

type_synonym status_section = "(string \<times> status_entry) list"

text \<open>The body of the loop of \<open>parse_interface_status\<close>.\<close>

definition interface_status_row :: "row \<Rightarrow> status_section \<Rightarrow> py_error + status_section" where
  "interface_status_row row parsed =
     (if length row < 4 then Inr parsed
      else
        let idx = row ! 0; descr = row ! 1; admin_status = row ! 2; oper_status = row ! 3 in
        if descr = [] then Inr parsed
        else
          (case int_if_isdigit admin_status of
             Inl e \<Rightarrow> Inl e
           | Inr a \<Rightarrow>
               (case int_if_isdigit oper_status of
                  Inl e \<Rightarrow> Inl e
                | Inr b \<Rightarrow>
                    Inr (AList.update descr
                          \<lparr>status_index = idx, status_admin_status = a, status_oper_status = b\<rparr>
                          parsed))))"

definition parse_interface_status :: "table \<Rightarrow> py_error + status_section option" where
  "parse_interface_status string_table =
     (if string_table = [] then Inr None
      else
        (case for_rows interface_status_row string_table [] of
           Inl e \<Rightarrow> Inl e
         | Inr parsed \<Rightarrow> Inr (nonempty_or_None parsed)))"

definition discover_interface_status :: "status_section option \<Rightarrow> py_error + service list" where
  "discover_interface_status sec =
     (case sec of
        None \<Rightarrow> Inl AttributeError
      | Some s \<Rightarrow>
          Inr (map (\<lambda>(interface_name, data). Service (Some interface_name) [])
                 (filter (\<lambda>(interface_name, data). status_admin_status data = 1) s)))"

definition check_interface_status :: "string \<Rightarrow> status_section option \<Rightarrow> py_error + yielded list" where
  "check_interface_status item sec =
     (case sec of
        None \<Rightarrow> Inl AttributeError
      | Some s \<Rightarrow>
          (case map_of s item of
             None \<Rightarrow> Inr [Result UNKNOWN (Summary ''Interface not found'')]
           | Some data \<Rightarrow>
               let oper_status = status_oper_status data;
                   admin_status = status_admin_status data;
                   (st, status_text) =
                     (case oper_status_map oper_status of
                        None \<Rightarrow> (UNKNOWN, ''invalid'')
                      | Some p \<Rightarrow> p);
                   (st, status_text) =
                     (if admin_status \<noteq> 1 then (OK, status_text @ '' (admin down)'')
                      else (st, status_text))
               in Inr [Result st (Summary (''Operational status: '' @ status_text))]))"

section \<open>snmp_check.py: interface traffic\<close>

record traffic_entry =
  traffic_index :: string
  traffic_in_octets :: int
  traffic_out_octets :: int

type_synonym traffic_section = "(string \<times> traffic_entry) list"

text \<open>
  The body of the loop of \<open>parse_interface_traffic\<close>: the conversions stand in a
  \<open>try\<close> whose \<open>except ValueError\<close> skips the row.
\<close>

definition interface_traffic_row :: "row \<Rightarrow> traffic_section \<Rightarrow> py_error + traffic_section" where
  "interface_traffic_row row parsed =
     (if length row < 4 then Inr parsed
      else
        let idx = row ! 0; descr = row ! 1; in_octets = row ! 2; out_octets = row ! 3 in
        if descr = [] then Inr parsed
        else
          (case
             (case int_if_nonempty in_octets of
                Inl e \<Rightarrow> Inl e
              | Inr a \<Rightarrow>
                  (case int_if_nonempty out_octets of
                     Inl e \<Rightarrow> Inl e
                   | Inr b \<Rightarrow>
                       Inr (AList.update descr
                             \<lparr>traffic_index = idx, traffic_in_octets = a, traffic_out_octets = b\<rparr>
                             parsed)))
           of
             Inl ValueError \<Rightarrow> Inr parsed
           | Inl e \<Rightarrow> Inl e
           | Inr parsed' \<Rightarrow> Inr parsed'))"

definition parse_interface_traffic :: "table \<Rightarrow> py_error + traffic_section option" where
  "parse_interface_traffic string_table =
     (if string_table = [] then Inr None
      else
        (case for_rows interface_traffic_row string_table [] of
           Inl e \<Rightarrow> Inl e
         | Inr parsed \<Rightarrow> Inr (nonempty_or_None parsed)))"

definition discover_interface_traffic :: "traffic_section option \<Rightarrow> py_error + service list" where
  "discover_interface_traffic sec =
     (case sec of
        None \<Rightarrow> Inl TypeError
      | Some s \<Rightarrow> Inr (map (\<lambda>(interface_name, data). Service (Some interface_name) []) s))"

text \<open>
  The two \<open>get_rate\<close> calls that open a \<open>try\<close> block: the second is not made when the
  first raises; \<open>None\<close> when either raises \<open>GetRateError\<close>.
\<close>

definition get_rates ::
  "('vs, 'lv) agent_based \<Rightarrow> 'vs \<Rightarrow> real \<Rightarrow> string \<Rightarrow> int \<Rightarrow> string \<Rightarrow> int
     \<Rightarrow> (real \<times> real) option \<times> 'vs" where
  "get_rates api value_store now key1 value1 key2 value2 =
     (case get_rate api value_store key1 now value1 of
        (None, vs1) \<Rightarrow> (None, vs1)
      | (Some rate1, vs1) \<Rightarrow>
          (case get_rate api vs1 key2 now value2 of
             (None, vs2) \<Rightarrow> (None, vs2)
           | (Some rate2, vs2) \<Rightarrow> (Some (rate1, rate2), vs2)))"

definition check_interface_traffic ::
  "('vs, 'lv) agent_based \<Rightarrow> 'vs \<Rightarrow> real \<Rightarrow> string \<Rightarrow> traffic_section option
     \<Rightarrow> py_error + yielded list \<times> 'vs" where
  "check_interface_traffic api value_store now item sec =
     (case sec of
        None \<Rightarrow> Inl AttributeError
      | Some s \<Rightarrow>
          (case map_of s item of
             None \<Rightarrow> Inr ([Result UNKNOWN (Summary ''Interface not found'')], value_store)
           | Some data \<Rightarrow>
               (case get_rates api value_store now
                       (''in_octets.'' @ item) (traffic_in_octets data)
                       (''out_octets.'' @ item) (traffic_out_octets data) of
                  (None, vs') \<Rightarrow> Inr ([Result OK (Summary ''Collecting data...'')], vs')
                | (Some (in_rate, out_rate), vs') \<Rightarrow>
                    let in_bps = in_rate * 8; out_bps = out_rate * 8 in
                    Inr ([Result OK
                            (Summary (''In: '' @ networkbandwidth api in_bps @
                                      '', Out: '' @ networkbandwidth api out_bps)),
                          Metric ''if_in_bps'' in_bps,
                          Metric ''if_out_bps'' out_bps],
                         vs'))))"

section \<open>snmp_check_multitable.py\<close>

text \<open>The dataclass; its field \<open>alias\<close> is written \<open>if_alias\<close>.\<close>

record InterfaceData =
  index :: string
  descr :: string
  name :: string
  if_alias :: string
  if_type :: int
  speed :: int
  admin_status :: int
  oper_status :: int
  in_octets :: int
  out_octets :: int
  in_errors :: int
  out_errors :: int

definition is_up :: "InterfaceData \<Rightarrow> bool" where
  "is_up self = (oper_status self = 1)"

definition is_admin_up :: "InterfaceData \<Rightarrow> bool" where
  "is_admin_up self = (admin_status self = 1)"

text \<open>\<open>self.name or self.alias or self.descr\<close>\<close>

definition display_name :: "InterfaceData \<Rightarrow> string" where
  "display_name self =
     (if name self \<noteq> [] then name self
      else if if_alias self \<noteq> [] then if_alias self
      else descr self)"

type_synonym Section = "(string \<times> InterfaceData) list"

record ifx_entry =
  ifx_name :: string
  ifx_alias :: string

record counter_entry =
  cnt_in_octets :: int
  cnt_out_octets :: int
  cnt_in_errors :: int
  cnt_out_errors :: int

text \<open>The loop that builds \<open>ifx_by_index\<close>.\<close>

definition ifx_row ::
  "row \<Rightarrow> (string \<times> ifx_entry) list \<Rightarrow> py_error + (string \<times> ifx_entry) list" where
  "ifx_row row ifx_by_index =
     (if length row \<ge> 3
      then Inr (AList.update (row ! 0) \<lparr>ifx_name = row ! 1, ifx_alias = row ! 2\<rparr> ifx_by_index)
      else Inr ifx_by_index)"

text \<open>The loop that builds \<open>counters_by_index\<close>; its conversions are not guarded.\<close>

definition counters_row ::
  "row \<Rightarrow> (string \<times> counter_entry) list \<Rightarrow> py_error + (string \<times> counter_entry) list" where
  "counters_row row counters_by_index =
     (if length row \<ge> 5
      then
        (case int_if_nonempty (row ! 1) of
           Inl e \<Rightarrow> Inl e
         | Inr a \<Rightarrow>
             (case int_if_nonempty (row ! 2) of
                Inl e \<Rightarrow> Inl e
              | Inr b \<Rightarrow>
                  (case int_if_nonempty (row ! 3) of
                     Inl e \<Rightarrow> Inl e
                   | Inr c \<Rightarrow>
                       (case int_if_nonempty (row ! 4) of
                          Inl e \<Rightarrow> Inl e
                        | Inr d \<Rightarrow>
                            Inr (AList.update (row ! 0)
                                  \<lparr>cnt_in_octets = a, cnt_out_octets = b,
                                   cnt_in_errors = c, cnt_out_errors = d\<rparr>
                                  counters_by_index)))))
      else Inr counters_by_index)"

text \<open>
  The \<open>InterfaceData\<close> built for a row of the primary table that has six columns and a
  description: \<open>ifx_by_index.get(idx, {})\<close> and \<open>counters_by_index.get(idx, {})\<close>, then
  \<open>.get(field, default)\<close> on each.
\<close>

definition interface_of_row ::
  "(string \<times> ifx_entry) list \<Rightarrow> (string \<times> counter_entry) list \<Rightarrow> row
     \<Rightarrow> py_error + InterfaceData" where
  "interface_of_row ifx_by_index counters_by_index row =
     (let idx = row ! 0; descr = row ! 1; if_type = row ! 2; speed = row ! 3;
          admin_status = row ! 4; oper_status = row ! 5;
          ifx_data = map_of ifx_by_index idx;
          counter_data = map_of counters_by_index idx
      in
        (case int_if_isdigit if_type of
           Inl e \<Rightarrow> Inl e
         | Inr t \<Rightarrow>
             (case int_if_isdigit speed of
                Inl e \<Rightarrow> Inl e
              | Inr sp \<Rightarrow>
                  (case int_if_isdigit admin_status of
                     Inl e \<Rightarrow> Inl e
                   | Inr a \<Rightarrow>
                       (case int_if_isdigit oper_status of
                          Inl e \<Rightarrow> Inl e
                        | Inr b \<Rightarrow>
                            Inr \<lparr>index = idx, descr = descr,
                                 name = (case ifx_data of None \<Rightarrow> [] | Some x \<Rightarrow> ifx_name x),
                                 if_alias = (case ifx_data of None \<Rightarrow> [] | Some x \<Rightarrow> ifx_alias x),
                                 if_type = t, speed = sp, admin_status = a, oper_status = b,
                                 in_octets =
                                   (case counter_data of None \<Rightarrow> 0 | Some c \<Rightarrow> cnt_in_octets c),
                                 out_octets =
                                   (case counter_data of None \<Rightarrow> 0 | Some c \<Rightarrow> cnt_out_octets c),
                                 in_errors =
                                   (case counter_data of None \<Rightarrow> 0 | Some c \<Rightarrow> cnt_in_errors c),
                                 out_errors =
                                   (case counter_data of None \<Rightarrow> 0 | Some c \<Rightarrow> cnt_out_errors c)\<rparr>)))))"

text \<open>The body of the loop over the primary table.\<close>

definition if_table_row ::
  "(string \<times> ifx_entry) list \<Rightarrow> (string \<times> counter_entry) list \<Rightarrow> row \<Rightarrow> Section
     \<Rightarrow> py_error + Section" where
  "if_table_row ifx_by_index counters_by_index row parsed =
     (if length row < 6 then Inr parsed
      else if row ! 1 = [] then Inr parsed
      else
        (case interface_of_row ifx_by_index counters_by_index row of
           Inl e \<Rightarrow> Inl e
         | Inr interface \<Rightarrow> Inr (AList.update (display_name interface) interface parsed)))"

definition parse_multi_table_interfaces :: "table list \<Rightarrow> py_error + Section option" where
  "parse_multi_table_interfaces string_table =
     (if string_table = [] \<or> length string_table < 3 then Inr None
      else
        let if_table = string_table ! 0;
            ifx_table = string_table ! 1;
            if_counters = string_table ! 2
        in
          (case for_rows ifx_row ifx_table [] of
             Inl e \<Rightarrow> Inl e
           | Inr ifx_by_index \<Rightarrow>
               (case for_rows counters_row if_counters [] of
                  Inl e \<Rightarrow> Inl e
                | Inr counters_by_index \<Rightarrow>
                    (case for_rows (if_table_row ifx_by_index counters_by_index) if_table [] of
                       Inl e \<Rightarrow> Inl e
                     | Inr parsed \<Rightarrow> Inr (nonempty_or_None parsed)))))"

definition discover_multi_table_interfaces :: "Section option \<Rightarrow> py_error + service list" where
  "discover_multi_table_interfaces sec =
     (case sec of
        None \<Rightarrow> Inl AttributeError
      | Some s \<Rightarrow>
          Inr (map (\<lambda>(nm, interface).
                      Service (Some nm)
                        [(''discovered_speed'', speed interface),
                         (''discovered_oper_status'', oper_status interface)])
                 (filter (\<lambda>(nm, interface). if_type interface \<in> {6, 117, 62, 69, 135, 136}) s)))"

record params =
  expected_status :: "int option"
  discovered_speed :: "int option"
  utilization_levels :: "(real \<times> real) option"
  error_levels :: "(real \<times> real) option"

text \<open>The four parts of \<open>check_multi_table_interfaces\<close>, in the order of the source.\<close>

definition status_check :: "params \<Rightarrow> InterfaceData \<Rightarrow> yielded list" where
  "status_check ps interface =
     (let (st, status_text) =
            (case oper_status_map (oper_status interface) of
               None \<Rightarrow> (UNKNOWN, ''invalid'')
             | Some p \<Rightarrow> p);
          expected = (case expected_status ps of None \<Rightarrow> 1 | Some e \<Rightarrow> e);
          (st, status_text) =
            (if oper_status interface \<noteq> expected \<and> is_admin_up interface
             then (CRIT, status_text @ '' (expected: up)'')
             else if \<not> is_admin_up interface
             then (OK, status_text @ '' (admin down)'')
             else (st, status_text))
      in [Result st (Summary (''Status: '' @ status_text))])"

definition speed_check :: "('vs, 'lv) agent_based \<Rightarrow> params \<Rightarrow> InterfaceData \<Rightarrow> yielded list" where
  "speed_check api ps interface =
     (if speed interface > 0
      then
        let speed_text = networkbandwidth api (of_int (speed interface));
            discovered = (case discovered_speed ps of None \<Rightarrow> 0 | Some d \<Rightarrow> d)
        in
          if discovered \<noteq> 0 \<and> speed interface \<noteq> discovered
          then [Result WARN
                  (Summary (''Speed changed: '' @ speed_text @ '' (was '' @
                            networkbandwidth api (of_int discovered) @ '')''))]
          else [Result OK (Notice (''Speed: '' @ speed_text))]
      else [])"

definition traffic_rates ::
  "('vs, real \<times> real) agent_based \<Rightarrow> 'vs \<Rightarrow> real \<Rightarrow> string \<Rightarrow> params \<Rightarrow> InterfaceData
     \<Rightarrow> yielded list \<times> 'vs" where
  "traffic_rates api value_store now item ps interface =
     (case get_rates api value_store now
             (''in_octets.'' @ item) (in_octets interface)
             (''out_octets.'' @ item) (out_octets interface) of
        (None, vs') \<Rightarrow> ([Result OK (Notice ''Traffic: collecting data...'')], vs')
      | (Some (in_rate, out_rate), vs') \<Rightarrow>
          let in_bps = in_rate * 8; out_bps = out_rate * 8 in
          ([Result OK
              (Summary (''In: '' @ networkbandwidth api in_bps @
                        '', Out: '' @ networkbandwidth api out_bps)),
            Metric ''if_in_bps'' in_bps,
            Metric ''if_out_bps'' out_bps] @
           (if speed interface > 0
            then
              let in_util = (in_bps / of_int (speed interface)) * 100;
                  out_util = (out_bps / of_int (speed interface)) * 100;
                  util_levels =
                    (case utilization_levels ps of None \<Rightarrow> (80, 90) | Some l \<Rightarrow> l)
              in check_levels api (max in_util out_util)
                   \<lparr>metric_name = ''if_util_percent'', levels_upper = Some util_levels,
                    levels_lower = None, label = ''Utilization'',
                    render_func = percent api, boundaries = None\<rparr>
            else []),
           vs'))"

definition error_rates ::
  "('vs, real \<times> real) agent_based \<Rightarrow> 'vs \<Rightarrow> real \<Rightarrow> string \<Rightarrow> params \<Rightarrow> InterfaceData
     \<Rightarrow> yielded list \<times> 'vs" where
  "error_rates api value_store now item ps interface =
     (case get_rates api value_store now
             (''in_errors.'' @ item) (in_errors interface)
             (''out_errors.'' @ item) (out_errors interface) of
        (None, vs') \<Rightarrow> ([], vs')
      | (Some (in_err_rate, out_err_rate), vs') \<Rightarrow>
          let total_err_rate = in_err_rate + out_err_rate in
          (if total_err_rate > 0
           then
             let levels = (case error_levels ps of None \<Rightarrow> (1, 10) | Some l \<Rightarrow> l) in
             check_levels api total_err_rate
               \<lparr>metric_name = ''if_errors_rate'', levels_upper = Some levels,
                levels_lower = None, label = ''Errors'',
                render_func = (\<lambda>x. format_2f api x @ ''/s''), boundaries = None\<rparr>
           else [],
           vs'))"

definition check_multi_table_interfaces ::
  "('vs, real \<times> real) agent_based \<Rightarrow> 'vs \<Rightarrow> real \<Rightarrow> string \<Rightarrow> params \<Rightarrow> Section option
     \<Rightarrow> py_error + yielded list \<times> 'vs" where
  "check_multi_table_interfaces api value_store now item ps sec =
     (case sec of
        None \<Rightarrow> Inl AttributeError
      | Some s \<Rightarrow>
          (case map_of s item of
             None \<Rightarrow> Inr ([Result UNKNOWN (Summary ''Interface not found'')], value_store)
           | Some interface \<Rightarrow>
               let (traffic, vs1) = traffic_rates api value_store now item ps interface;
                   (errors, vs2) = error_rates api vs1 now item ps interface
               in Inr (status_check ps interface @ speed_check api ps interface @
                       traffic @ errors, vs2)))"

section \<open>agent_check_advanced.py\<close>

record mycheck_entry =
  mc_value :: real
  mc_status :: string

type_synonym mycheck_section = "(string \<times> mycheck_entry) list"

text \<open>
  The body of the loop of \<open>parse_mycheck\<close>.  The conversion \<open>float\<close> is a parameter
  (\<open>None\<close> where it raises \<open>ValueError\<close>); the \<open>except\<close> skips the line.
\<close>

definition mycheck_line ::
  "(string \<Rightarrow> real option) \<Rightarrow> row \<Rightarrow> mycheck_section \<Rightarrow> py_error + mycheck_section" where
  "mycheck_line py_float line parsed =
     (if length line < 3 then Inr parsed
      else
        let item_name = line ! 0 in
        (case py_float (line ! 1) of
           None \<Rightarrow> Inr parsed
         | Some v \<Rightarrow> Inr (AList.update item_name \<lparr>mc_value = v, mc_status = line ! 2\<rparr> parsed)))"

definition advanced_parse_mycheck ::
  "(string \<Rightarrow> real option) \<Rightarrow> table \<Rightarrow> py_error + mycheck_section option" where
  "advanced_parse_mycheck py_float string_table =
     (if string_table = [] then Inr None
      else
        (case for_rows (mycheck_line py_float) string_table [] of
           Inl e \<Rightarrow> Inl e
         | Inr parsed \<Rightarrow> Inr (nonempty_or_None parsed)))"

definition advanced_discover_mycheck :: "mycheck_section option \<Rightarrow> py_error + service list" where
  "advanced_discover_mycheck sec =
     (case sec of
        None \<Rightarrow> Inl TypeError
      | Some s \<Rightarrow> Inr (map (\<lambda>(item_name, data). Service (Some item_name) []) s))"

record 'lv mycheck_params =
  param_levels_upper :: "'lv option"
  param_levels_lower :: "'lv option"

definition advanced_check_mycheck ::
  "('vs, 'lv) agent_based \<Rightarrow> string \<Rightarrow> 'lv mycheck_params \<Rightarrow> mycheck_section option
     \<Rightarrow> py_error + yielded list" where
  "advanced_check_mycheck api item ps sec =
     (case sec of
        None \<Rightarrow> Inl AttributeError
      | Some s \<Rightarrow>
          (case map_of s item of
             None \<Rightarrow> Inr [Result UNKNOWN (Summary ''Item not found in data'')]
           | Some data \<Rightarrow>
               Inr (check_levels api (mc_value data)
                      \<lparr>metric_name = ''mycheck_value'',
                       levels_upper = param_levels_upper ps,
                       levels_lower = param_levels_lower ps,
                       label = ''Value'', render_func = percent api,
                       boundaries = Some (0, 100)\<rparr> @
                    [Result OK (Notice (''Reported status: '' @ mc_status data))])))"

section \<open>agent_check_simple.py\<close>

text \<open>The section is the dict \<open>{"value": ...}\<close>, whose value is a cell or \<open>None\<close>.\<close>

datatype simple_section = Value_dict "string option"

definition simple_parse_mycheck :: "table \<Rightarrow> simple_section option" where
  "simple_parse_mycheck string_table =
     (case string_table of
        [] \<Rightarrow> None
      | first # rest \<Rightarrow> Some (Value_dict (case first of [] \<Rightarrow> None | cell # cells \<Rightarrow> Some cell)))"

definition simple_discover_mycheck :: "simple_section option \<Rightarrow> service list" where
  "simple_discover_mycheck sec = (case sec of None \<Rightarrow> [] | Some s \<Rightarrow> [Service None []])"

definition simple_check_mycheck :: "simple_section option \<Rightarrow> yielded list" where
  "simple_check_mycheck sec =
     (case sec of
        None \<Rightarrow> [Result UNKNOWN (Summary ''No data'')]
      | Some (Value_dict None) \<Rightarrow> [Result UNKNOWN (Summary ''No data'')]
      | Some (Value_dict (Some v)) \<Rightarrow>
          if v = [] then [Result UNKNOWN (Summary ''No data'')]
          else [Result OK (Summary (''Value: '' @ v))])"

section \<open>snmp_check.py: device setup\<close>

record device_setup =
  contact :: string
  sys_name :: string
  location :: string

definition parse_device_setup :: "table \<Rightarrow> device_setup option" where
  "parse_device_setup string_table =
     (case string_table of
        [] \<Rightarrow> None
      | row # rest \<Rightarrow>
          if row = [] then None
          else Some \<lparr>contact = (if length row > 0 then row ! 0 else []),
                     sys_name = (if length row > 1 then row ! 1 else []),
                     location = (if length row > 2 then row ! 2 else [])\<rparr>)"

definition discover_device_setup :: "device_setup option \<Rightarrow> service list" where
  "discover_device_setup sec = (case sec of None \<Rightarrow> [] | Some s \<Rightarrow> [Service None []])"

text \<open>\<open>sep.join(xs)\<close>\<close>

fun join :: "string \<Rightarrow> string list \<Rightarrow> string" where
  "join sep [] = []"
| "join sep [x] = x"
| "join sep (x # y # ys) = x @ sep @ join sep (y # ys)"

definition check_device_setup :: "device_setup option \<Rightarrow> yielded list" where
  "check_device_setup sec =
     (case sec of
        None \<Rightarrow> [Result UNKNOWN (Summary ''No SNMP data received'')]
      | Some s \<Rightarrow>
          let missing =
                map fst
                  (filter (\<lambda>(field, v). v = [])
                     [(''contact'', contact s), (''name'', sys_name s), (''location'', location s)])
          in
            if missing \<noteq> [] then [Result WARN (Summary (''Missing: '' @ join '', '' missing))]
            else [Result OK (Summary (''Name: '' @ sys_name s @ '', Location: '' @ location s))])"

section \<open>active_check_executable.py: check_thresholds\<close>

text \<open>The exit codes \<open>OK\<close>, \<open>WARNING\<close> and \<open>CRITICAL\<close> of the script.\<close>

definition EXIT_OK :: int where "EXIT_OK = 0"
definition EXIT_WARNING :: int where "EXIT_WARNING = 1"
definition EXIT_CRITICAL :: int where "EXIT_CRITICAL = 2"

definition check_thresholds :: "real \<Rightarrow> real option \<Rightarrow> real option \<Rightarrow> bool \<Rightarrow> int" where
  "check_thresholds val warning critical lower_is_worse =
     (if lower_is_worse
      then
        (if (case critical of None \<Rightarrow> False | Some c \<Rightarrow> val \<le> c) then EXIT_CRITICAL
         else if (case warning of None \<Rightarrow> False | Some w \<Rightarrow> val \<le> w) then EXIT_WARNING
         else EXIT_OK)
      else
        (if (case critical of None \<Rightarrow> False | Some c \<Rightarrow> val \<ge> c) then EXIT_CRITICAL
         else if (case warning of None \<Rightarrow> False | Some w \<Rightarrow> val \<ge> w) then EXIT_WARNING
         else EXIT_OK))"

section \<open>local_check.py\<close>

definition STATUS_OK :: int where "STATUS_OK = 0"
definition STATUS_WARN :: int where "STATUS_WARN = 1"
definition STATUS_CRIT :: int where "STATUS_CRIT = 2"
definition STATUS_UNKNOWN :: int where "STATUS_UNKNOWN = 3"

text \<open>A printed line \<open><STATUS> "<SERVICE_NAME>" <METRICS> <STATUS_TEXT>\<close>, as its four parts.\<close>

record local_line =
  line_status :: int
  line_service_name :: string
  line_metrics :: string
  line_text :: string

definition output_result :: "int \<Rightarrow> string \<Rightarrow> string \<Rightarrow> string \<Rightarrow> local_line" where
  "output_result status service_name metrics txt =
     \<lparr>line_status = status, line_service_name = service_name,
      line_metrics = metrics, line_text = txt\<rparr>"

definition output_ok :: "string \<Rightarrow> string \<Rightarrow> string \<Rightarrow> local_line" where
  "output_ok service_name txt metrics = output_result STATUS_OK service_name metrics txt"

definition output_warn :: "string \<Rightarrow> string \<Rightarrow> string \<Rightarrow> local_line" where
  "output_warn service_name txt metrics = output_result STATUS_WARN service_name metrics txt"

definition output_crit :: "string \<Rightarrow> string \<Rightarrow> string \<Rightarrow> local_line" where
  "output_crit service_name txt metrics = output_result STATUS_CRIT service_name metrics txt"

definition output_unknown :: "string \<Rightarrow> string \<Rightarrow> string \<Rightarrow> local_line" where
  "output_unknown service_name txt metrics = output_result STATUS_UNKNOWN service_name metrics txt"

text \<open>
  \<open>check_process_count\<close> after its subprocess: the last argument is the count it read, or
  the text of the exception that the \<open>try\<close> caught.
\<close>

definition check_process_count :: "string \<Rightarrow> int \<Rightarrow> int \<Rightarrow> string + int \<Rightarrow> local_line" where
  "check_process_count process_name min_count max_count run =
     (case run of
        Inl e \<Rightarrow> output_unknown (''Process '' @ process_name) (''Cannot check process: '' @ e) ''-''
      | Inr count \<Rightarrow>
          let metrics = ''count='' @ str_int count in
          if count < min_count
          then output_crit (''Process '' @ process_name)
                 (''Only '' @ str_int count @ '' instances (min: '' @ str_int min_count @ '')'')
                 metrics
          else if count > max_count
          then output_warn (''Process '' @ process_name)
                 (''Too many: '' @ str_int count @ '' instances (max: '' @ str_int max_count @ '')'')
                 metrics
          else output_ok (''Process '' @ process_name)
                 (str_int count @ '' instances running'') metrics)"

text \<open>The class \<open>LocalCheck\<close>; floats are printed by a parameter \<open>str_float\<close>.\<close>

record LocalCheck =
  service_name :: string
  metrics :: "string list"

definition add_metric ::
  "(real \<Rightarrow> string) \<Rightarrow> LocalCheck \<Rightarrow> string \<Rightarrow> real \<Rightarrow> string option \<Rightarrow> string option
     \<Rightarrow> real option \<Rightarrow> real option \<Rightarrow> LocalCheck" where
  "add_metric str_float self nm val warn crit min_val max_val =
     (let metric = nm @ ''='' @ str_float val;
          metric =
            (if warn \<noteq> None \<or> crit \<noteq> None
             then
               (let metric = metric @ '';'' @ (case warn of None \<Rightarrow> [] | Some w \<Rightarrow> w) @
                             '';'' @ (case crit of None \<Rightarrow> [] | Some c \<Rightarrow> c)
                in
                  if min_val \<noteq> None \<or> max_val \<noteq> None
                  then metric @ '';'' @ (case min_val of None \<Rightarrow> [] | Some m \<Rightarrow> str_float m) @
                       '';'' @ (case max_val of None \<Rightarrow> [] | Some m \<Rightarrow> str_float m)
                  else metric)
             else metric)
      in self\<lparr>metrics := metrics self @ [metric]\<rparr>)"

definition output_line :: "LocalCheck \<Rightarrow> int \<Rightarrow> string \<Rightarrow> local_line" where
  "output_line self status txt =
     (let metrics_str = (if metrics self \<noteq> [] then join ''|'' (metrics self) else ''-'')
      in \<lparr>line_status = status, line_service_name = service_name self,
          line_metrics = metrics_str, line_text = txt\<rparr>)"

text \<open>
  What \<open>check_backup\<close> finds on the file system: no directory, no file matching the
  pattern, the age in hours and the size in MB of the newest file, or an exception.
\<close>

datatype backup_probe =
  No_directory | No_files | Newest real real | Probe_failed string

definition check_backup ::
  "(real \<Rightarrow> string) \<Rightarrow> string \<Rightarrow> string \<Rightarrow> int \<Rightarrow> int \<Rightarrow> string \<Rightarrow> backup_probe \<Rightarrow> local_line" where
  "check_backup str_float backup_dir pattern max_age_hours min_size_mb svc probe =
     (case probe of
        No_directory \<Rightarrow> output_crit svc (''Backup directory not found: '' @ backup_dir) ''-''
      | No_files \<Rightarrow>
          output_crit svc
            (''No backup files found matching '' @ [CHR 0x27] @ pattern @ [CHR 0x27]) ''-''
      | Probe_failed e \<Rightarrow> output_unknown svc (''Cannot check backup: '' @ e) ''-''
      | Newest age_hours size_mb \<Rightarrow>
          let chk = \<lparr>service_name = svc, metrics = []\<rparr>;
              chk = add_metric str_float chk ''age'' age_hours
                      (Some (str_int max_age_hours)) (Some (str_int (max_age_hours * 2)))
                      None None;
              chk = add_metric str_float chk ''size'' size_mb
                      (Some (str_int min_size_mb @ '':'')) None None None
          in
            if age_hours > of_int max_age_hours
            then output_line chk STATUS_CRIT
                   (''Backup too old: '' @ str_float age_hours @ ''h (max: '' @
                    str_int max_age_hours @ ''h)'')
            else if size_mb < of_int min_size_mb
            then output_line chk STATUS_WARN
                   (''Backup small: '' @ str_float size_mb @ ''MB (min: '' @
                    str_int min_size_mb @ ''MB)'')
            else output_line chk STATUS_OK
                   (''Age: '' @ str_float age_hours @ ''h, Size: '' @ str_float size_mb @ ''MB''))"

section \<open>An instance of the API parameters\<close>

text \<open>
  A value store that maps a key to the last sample, and a \<open>get_rate\<close> over it that
  stores the sample of every call and has no rate for a key it sees for the first time or
  when the time has not advanced.  The examples below run the check functions on it.
\<close>

type_synonym value_store = "(string \<times> real \<times> int) list"

definition store_get_rate :: "value_store \<Rightarrow> string \<Rightarrow> real \<Rightarrow> int \<Rightarrow> real option \<times> value_store" where
  "store_get_rate value_store key t v =
     (let stored = AList.update key (t, v) value_store in
      case map_of value_store key of
        None \<Rightarrow> (None, stored)
      | Some (last_time, last_value) \<Rightarrow>
          if t \<le> last_time then (None, stored)
          else (Some (of_int (v - last_value) / (t - last_time)), stored))"

definition store_api :: "(value_store, 'lv) agent_based" where
  "store_api =
     \<lparr>get_rate = store_get_rate,
      networkbandwidth = (\<lambda>x. ''bandwidth''),
      percent = (\<lambda>x. ''percent''),
      format_2f = (\<lambda>x. ''float''),
      check_levels = (\<lambda>v args. [Metric (metric_name args) v])\<rparr>"

section \<open>Example data\<close>

definition status_entry_eth0 :: status_entry where
  "status_entry_eth0 = \<lparr>status_index = ''1'', status_admin_status = 1, status_oper_status = 1\<rparr>"

definition status_entry_eth1 :: status_entry where
  "status_entry_eth1 = \<lparr>status_index = ''2'', status_admin_status = 2, status_oper_status = 2\<rparr>"

definition traffic_entry_eth0 :: traffic_entry where
  "traffic_entry_eth0 =
     \<lparr>traffic_index = ''1'', traffic_in_octets = 1000, traffic_out_octets = 2000\<rparr>"

definition mycheck_item1 :: mycheck_section where
  "mycheck_item1 = [(''item1'', \<lparr>mc_value = 100, mc_status = ''OK''\<rparr>)]"

definition no_levels :: "(real \<times> real) mycheck_params" where
  "no_levels = \<lparr>param_levels_upper = None, param_levels_lower = None\<rparr>"

definition eth0 :: InterfaceData where
  "eth0 =
     \<lparr>index = ''1'', descr = ''eth0'', name = [], if_alias = [], if_type = 6, speed = 1000,
      admin_status = 1, oper_status = 1, in_octets = 12, out_octets = 0, in_errors = 0,
      out_errors = 0\<rparr>"

definition eth1_down :: InterfaceData where
  "eth1_down =
     \<lparr>index = ''2'', descr = ''eth1'', name = ''Gi0/2'', if_alias = ''uplink'', if_type = 6,
      speed = 100, admin_status = 2, oper_status = 2, in_octets = 100, out_octets = 200,
      in_errors = 3, out_errors = 4\<rparr>"

definition lo0 :: InterfaceData where
  "lo0 =
     \<lparr>index = ''3'', descr = ''lo'', name = [], if_alias = [], if_type = 24, speed = 0,
      admin_status = 1, oper_status = 1, in_octets = 0, out_octets = 0, in_errors = 0,
      out_errors = 0\<rparr>"

definition default_params :: params where
  "default_params =
     \<lparr>expected_status = Some 1, discovered_speed = None,
      utilization_levels = Some (80, 90), error_levels = Some (1, 10)\<rparr>"

definition pair_api :: "(value_store, real \<times> real) agent_based" where
  "pair_api = store_api"

definition row_eth0 :: row where
  "row_eth0 = [''1'', ''eth0'', ''6'', ''1000'', ''1'', ''1'']"

definition row_eth1 :: row where
  "row_eth1 = [''2'', ''eth1'', ''6'', ''100'', ''2'', ''2'']"

definition row_eth0_again :: row where
  "row_eth0_again = [''7'', ''eth0'', ''6'', ''100'', ''1'', ''2'']"

definition ifx_table_example :: table where
  "ifx_table_example = [[''2'', ''Gi0/2'', ''uplink'']]"

definition if_counters_example :: table where
  "if_counters_example = [[''2'', ''100'', ''200'', ''3'', ''4'']]"

definition ifx_by_index_example :: "(string \<times> ifx_entry) list" where
  "ifx_by_index_example = [(''2'', \<lparr>ifx_name = ''Gi0/2'', ifx_alias = ''uplink''\<rparr>)]"

definition counters_by_index_example :: "(string \<times> counter_entry) list" where
  "counters_by_index_example =
     [(''2'', \<lparr>cnt_in_octets = 100, cnt_out_octets = 200, cnt_in_errors = 3,
             cnt_out_errors = 4\<rparr>)]"

text \<open>What the multi-table parser builds for \<open>row_eth0\<close> and \<open>row_eth0_again\<close> without auxiliary data.\<close>

definition eth0_defaults :: InterfaceData where
  "eth0_defaults =
     \<lparr>index = ''1'', descr = ''eth0'', name = [], if_alias = [], if_type = 6, speed = 1000,
      admin_status = 1, oper_status = 1, in_octets = 0, out_octets = 0, in_errors = 0,
      out_errors = 0\<rparr>"

definition eth0_again :: InterfaceData where
  "eth0_again =
     \<lparr>index = ''7'', descr = ''eth0'', name = [], if_alias = [], if_type = 6, speed = 100,
      admin_status = 1, oper_status = 2, in_octets = 0, out_octets = 0, in_errors = 0,
      out_errors = 0\<rparr>"

section \<open>Facts about the conversions and the row loop\<close>

lemmas conversion_defs =
  int_if_isdigit_def int_if_nonempty_def int_of_str_def py_int_def decimal_literal_def
  max_str_digits_def strip_def is_space_def is_digit_def is_superscript_digit_def isdigit_def
  decimal_value_def digit_value_def

lemma int_of_str_error: "int_of_str s = Inl e \<Longrightarrow> e = ValueError"
  by (simp add: int_of_str_def split: option.splits)

lemma int_if_isdigit_error: "int_if_isdigit x = Inl e \<Longrightarrow> e = ValueError"
  by (auto simp: int_if_isdigit_def dest: int_of_str_error split: if_splits)

lemma int_if_nonempty_error: "int_if_nonempty x = Inl e \<Longrightarrow> e = ValueError"
  by (auto simp: int_if_nonempty_def dest: int_of_str_error split: if_splits)

lemma is_digit_not_space: "is_digit c \<Longrightarrow> \<not> is_space c"
  by (auto simp: is_digit_def is_space_def)

lemma is_digit_not_sign:
  "is_digit c \<Longrightarrow> c \<noteq> CHR ''-'' \<and> c \<noteq> CHR ''+'' \<and> c \<noteq> CHR ''_''"
  by (auto simp: is_digit_def)

lemma digits_ok_all_digits: "s \<noteq> [] \<Longrightarrow> list_all is_digit s \<Longrightarrow> digits_ok s"
  by (induction s rule: digits_ok.induct) (auto simp: is_digit_not_sign)

lemma strip_digits:
  assumes ne: "s \<noteq> []" and ds: "list_all is_digit s"
  shows "strip s = s"
proof -
  have front: "dropWhile is_space s = s"
    using ne ds by (cases s) (auto simp: is_digit_not_space)
  have "rev s \<noteq> []" and "list_all is_digit (rev s)"
    using ne ds by (simp_all add: list_all_iff)
  then have rear: "dropWhile is_space (rev s) = rev s"
    by (cases "rev s") (auto simp: is_digit_not_space)
  show ?thesis by (simp add: strip_def front rear)
qed

text \<open>
  \<open>int\<close> converts a non-empty string of at most 4300 decimal digits.  \<open>isdigit\<close> holds of
  more strings than that: the guard \<open>x.isdigit()\<close> does not keep \<open>int(x)\<close> from raising.
\<close>

lemma decimal_digits_py_int:
  assumes "s \<noteq> []" and "list_all is_digit s" and "length s \<le> max_str_digits"
  shows "py_int s = Some (int (decimal_value s))"
proof -
  have "filter is_digit s = s" using assms(2) by (simp add: list_all_iff)
  then have "decimal_literal s = Some (decimal_value s)"
    using assms by (simp add: decimal_literal_def digits_ok_all_digits)
  then show ?thesis
    using assms by (cases s) (auto simp: py_int_def strip_digits is_digit_not_sign)
qed

lemma int_if_isdigit_converts:
  "\<not> isdigit x \<or> list_all is_digit x \<and> length x \<le> max_str_digits \<Longrightarrow>
   \<exists>v. int_if_isdigit x = Inr v"
  by (auto simp: int_if_isdigit_def int_of_str_def decimal_digits_py_int isdigit_def)

lemma isdigit_superscript_two: "isdigit [CHR 0xB2] \<and> py_int [CHR 0xB2] = None"
  by (simp add: conversion_defs)

lemma int_if_isdigit_raises: "int_if_isdigit [CHR 0xB2] = Inl ValueError"
  by (simp add: conversion_defs)

lemma int_if_isdigit_too_long:
  assumes "list_all is_digit s" and "max_str_digits < length s"
  shows "int_if_isdigit s = Inl ValueError"
proof -
  have ne: "s \<noteq> []" using assms(2) by auto
  have "filter is_digit s = s" using assms(1) by (simp add: list_all_iff)
  then have "decimal_literal s = None"
    using assms(2) by (simp add: decimal_literal_def)
  then have "py_int s = None"
    using ne assms(1) by (cases s) (auto simp: py_int_def strip_digits is_digit_not_sign)
  moreover have "isdigit s"
    using ne assms(1) by (auto simp: isdigit_def list_all_iff)
  ultimately show ?thesis by (simp add: int_if_isdigit_def int_of_str_def)
qed

lemma py_int_examples:
  "py_int ''1_000'' = Some 1000 \<and> py_int '' 7 '' = Some 7 \<and> py_int ''+5'' = Some 5 \<and>
   py_int ''-0'' = Some 0 \<and> py_int ''007'' = Some 7 \<and> py_int ''1__0'' = None \<and>
   py_int ''_1'' = None \<and> py_int ''1_'' = None \<and> py_int ''+ 5'' = None \<and> py_int [] = None \<and>
   py_int ''abc'' = None \<and> py_int [CHR 0x85, CHR ''5''] = Some 5 \<and>
   py_int [CHR ''5'', CHR 0x0B] = Some 5 \<and> py_int [CHR ''5'', CHR 0x1F] = None \<and>
   py_int [CHR ''5'', CHR 0x00] = None \<and> py_int [CHR 0xB9] = None \<and>
   isdigit [CHR ''1'', CHR 0xB3] \<and> \<not> isdigit [] \<and> \<not> isdigit ''-1'' \<and> \<not> isdigit [CHR 0xBC]"
  by (simp add: conversion_defs)

lemma py_int_separator_refused: "py_int [CHR 0x1C, CHR ''5''] = None"
  by (simp add: conversion_defs)

lemma py_int_no_break_space_skipped: "py_int [CHR 0xA0, CHR ''5''] = Some 5"
  by (simp add: conversion_defs)

lemma for_rows_total:
  assumes "\<And>r acc. \<exists>acc'. body r acc = Inr acc'"
  shows "\<exists>res. for_rows body rs acc = Inr res"
proof (induction rs arbitrary: acc)
  case Nil
  show ?case by simp
next
  case (Cons r rs)
  obtain acc' where "body r acc = Inr acc'" using assms by blast
  with Cons show ?case by simp
qed

lemma for_rows_append:
  "for_rows body (xs @ ys) acc =
     (case for_rows body xs acc of Inl e \<Rightarrow> Inl e | Inr acc' \<Rightarrow> for_rows body ys acc')"
  by (induction xs arbitrary: acc) (auto split: sum.splits)

lemma for_rows_Cons_Inr:
  "for_rows body (r # rs) acc = Inr res \<Longrightarrow>
   \<exists>acc'. body r acc = Inr acc' \<and> for_rows body rs acc' = Inr res"
  by (auto split: sum.splits)

lemma for_rows_append_Inr:
  "for_rows body (xs @ ys) acc = Inr res \<Longrightarrow>
   \<exists>mid. for_rows body xs acc = Inr mid \<and> for_rows body ys mid = Inr res"
  by (auto simp: for_rows_append split: sum.splits)

lemma for_rows_error:
  assumes "\<And>r acc e. body r acc = Inl e \<Longrightarrow> e = ValueError"
  shows "for_rows body rs acc = Inl e \<Longrightarrow> e = ValueError"
  by (induction rs arbitrary: acc) (auto split: sum.splits dest: assms)

lemma set_update_cases: "p \<in> set (AList.update k v al) \<Longrightarrow> p = (k, v) \<or> p \<in> set al"
  by (induction al) (auto split: if_splits)

lemma nonempty_or_None_not_empty: "nonempty_or_None parsed \<noteq> Some []"
  by (simp add: nonempty_or_None_def)

lemma result_cases:
  assumes "r \<noteq> Inr (Some [])"
  shows "(\<exists>e. r = Inl e) \<or> r = Inr None \<or> (\<exists>m. r = Inr (Some m) \<and> m \<noteq> [])"
proof (cases r)
  case (Inl e)
  then show ?thesis by simp
next
  case (Inr x)
  with assms show ?thesis by (cases x) auto
qed

section \<open>Malformed rows\<close>

text \<open>
  \<open>parse_interface_traffic\<close> never raises: a row with too few columns, without a
  description or with a counter that is not a number is skipped.
\<close>

lemma interface_traffic_row_total: "\<exists>acc'. interface_traffic_row row acc = Inr acc'"
  by (auto simp: interface_traffic_row_def Let_def split: sum.splits py_error.splits
      dest: int_if_nonempty_error)

lemma parse_interface_traffic_total: "\<exists>res. parse_interface_traffic t = Inr res"
proof -
  obtain p where "for_rows interface_traffic_row t [] = Inr p"
    using for_rows_total [of interface_traffic_row t "[]"] interface_traffic_row_total by blast
  then show ?thesis by (simp add: parse_interface_traffic_def)
qed

lemma parse_interface_traffic_skips_bad_counter:
  "parse_interface_traffic [[''1'', ''eth0'', ''abc'', ''5''], [''2'', ''eth1'', ''7'', ''5'']] =
     Inr (Some [(''eth1'',
            \<lparr>traffic_index = ''2'', traffic_in_octets = 7, traffic_out_octets = 5\<rparr>)])"
  by (simp add: parse_interface_traffic_def interface_traffic_row_def conversion_defs
      nonempty_or_None_def)

text \<open>So does the \<open>parse_mycheck\<close> with items.\<close>

lemma mycheck_line_total: "\<exists>acc'. mycheck_line py_float line acc = Inr acc'"
  by (simp add: mycheck_line_def Let_def split: option.splits)

lemma advanced_parse_mycheck_total: "\<exists>res. advanced_parse_mycheck py_float t = Inr res"
proof -
  obtain p where "for_rows (mycheck_line py_float) t [] = Inr p"
    using for_rows_total [of "mycheck_line py_float" t "[]"] mycheck_line_total by blast
  then show ?thesis by (simp add: advanced_parse_mycheck_def)
qed

text \<open>
  \<open>parse_interface_status\<close> guards its conversions with \<open>isdigit\<close> only.  A status cell that
  \<open>isdigit\<close> accepts and \<open>int\<close> refuses, as the superscript two, makes it raise; it raises
  nothing but \<open>ValueError\<close>, and returns when the status cells that \<open>isdigit\<close> accepts are
  decimal digits within the limit.
\<close>

lemma parse_interface_status_raises:
  "parse_interface_status [[''1'', ''eth0'', [CHR 0xB2], ''1'']] = Inl ValueError"
  by (simp add: parse_interface_status_def interface_status_row_def conversion_defs)

lemma interface_status_row_error: "interface_status_row row acc = Inl e \<Longrightarrow> e = ValueError"
  by (auto simp: interface_status_row_def Let_def split: if_splits sum.splits
      dest: int_if_isdigit_error)

lemma parse_interface_status_error: "parse_interface_status t = Inl e \<Longrightarrow> e = ValueError"
  using for_rows_error [of interface_status_row t "[]" e] interface_status_row_error
  by (auto simp: parse_interface_status_def split: if_splits sum.splits)

lemma interface_status_row_converts:
  assumes "4 \<le> length row \<and> row ! 1 \<noteq> [] \<longrightarrow>
     (\<forall>k \<in> {2, 3}. \<not> isdigit (row ! k) \<or>
        list_all is_digit (row ! k) \<and> length (row ! k) \<le> max_str_digits)"
  shows "\<exists>acc'. interface_status_row row acc = Inr acc'"
proof (cases "4 \<le> length row \<and> row ! 1 \<noteq> []")
  case True
  with assms have ok: "\<forall>k \<in> {2, 3}. \<not> isdigit (row ! k) \<or>
        list_all is_digit (row ! k) \<and> length (row ! k) \<le> max_str_digits" by simp
  obtain a where a: "int_if_isdigit (row ! 2) = Inr a"
    using ok int_if_isdigit_converts [of "row ! 2"] by auto
  obtain b where b: "int_if_isdigit (row ! 3) = Inr b"
    using ok int_if_isdigit_converts [of "row ! 3"] by auto
  show ?thesis using True a b by (simp add: interface_status_row_def Let_def)
next
  case False
  then show ?thesis by (auto simp: interface_status_row_def Let_def)
qed

lemma parse_interface_status_returns:
  assumes "\<forall>row \<in> set t. 4 \<le> length row \<and> row ! 1 \<noteq> [] \<longrightarrow>
     (\<forall>k \<in> {2, 3}. \<not> isdigit (row ! k) \<or>
        list_all is_digit (row ! k) \<and> length (row ! k) \<le> max_str_digits)"
  shows "\<exists>res. parse_interface_status t = Inr res"
proof -
  have "\<exists>p. for_rows interface_status_row rows acc = Inr p"
    if "set rows \<subseteq> set t" for rows acc
    using that
  proof (induction rows arbitrary: acc)
    case Nil
    show ?case by simp
  next
    case (Cons r rows)
    obtain acc' where "interface_status_row r acc = Inr acc'"
      using interface_status_row_converts [of r acc] assms Cons.prems by auto
    moreover obtain p where "for_rows interface_status_row rows acc' = Inr p"
      using Cons.IH [of acc'] Cons.prems by auto
    ultimately show ?case by simp
  qed
  from this [of t "[]"] show ?thesis
    by (auto simp: parse_interface_status_def)
qed

text \<open>
  Claim C1: a malformed row (too few columns, an empty key column, a required numeric
  field that is not a number) is skipped and never fails the parse of the whole table.
  In \<open>parse_multi_table_interfaces\<close> the conversions of the counter table stand outside
  any \<open>try\<close>: one counter row whose cell is not a number makes the whole parse raise
  \<open>ValueError\<close>, also for the well-formed interface of the other row.
\<close>

theorem parse_multi_table_interfaces_raises:
  "parse_multi_table_interfaces
     [[[''1'', ''eth0'', ''6'', ''1000'', ''1'', ''1''],
       [''2'', ''eth1'', ''6'', ''1000'', ''1'', ''1'']],
      [],
      [[''1'', ''100'', ''200'', ''0'', ''0''],
       [''2'', ''abc'', ''0'', ''0'', ''0'']]] = Inl ValueError"
  by (simp add: parse_multi_table_interfaces_def counters_row_def conversion_defs)

text \<open>A speed cell that is the superscript one does the same in the loop of the primary table.\<close>

lemma parse_multi_table_interfaces_raises_on_superscript:
  "parse_multi_table_interfaces
     [[[''1'', ''eth0'', ''6'', [CHR 0xB9], ''1'', ''1'']], [], []] = Inl ValueError"
  by (simp add: parse_multi_table_interfaces_def if_table_row_def interface_of_row_def
      conversion_defs)

section \<open>A missing entity\<close>

text \<open>
  Claim C4: when the requested item is not a key of the parsed section, a check function
  yields exactly one result, \<open>UNKNOWN\<close> with a "not found" summary, yields no metric and
  returns at once: no rate is computed and the value store is left as it was.
\<close>

theorem missing_entity_unknown:
  "(map_of status_sec item = None \<longrightarrow>
      check_interface_status item (Some status_sec) =
        Inr [Result UNKNOWN (Summary ''Interface not found'')]) \<and>
   (map_of traffic_sec item = None \<longrightarrow>
      check_interface_traffic api value_store now item (Some traffic_sec) =
        Inr ([Result UNKNOWN (Summary ''Interface not found'')], value_store)) \<and>
   (map_of mycheck_sec item = None \<longrightarrow>
      advanced_check_mycheck api' item ps' (Some mycheck_sec) =
        Inr [Result UNKNOWN (Summary ''Item not found in data'')]) \<and>
   (map_of interfaces item = None \<longrightarrow>
      check_multi_table_interfaces api'' value_store' now item ps (Some interfaces) =
        Inr ([Result UNKNOWN (Summary ''Interface not found'')], value_store'))"
  by (simp add: check_interface_status_def check_interface_traffic_def
      advanced_check_mycheck_def check_multi_table_interfaces_def)

theorem missing_entity_unknown_witness:
  "map_of [(''eth0'', status_entry_eth0)] ''eth5'' = None \<and>
   check_interface_status ''eth5'' (Some [(''eth0'', status_entry_eth0)]) =
     Inr [Result UNKNOWN (Summary ''Interface not found'')] \<and>
   map_of [(''eth0'', traffic_entry_eth0)] ''eth5'' = None \<and>
   check_interface_traffic pair_api [] 100 ''eth5'' (Some [(''eth0'', traffic_entry_eth0)]) =
     Inr ([Result UNKNOWN (Summary ''Interface not found'')], []) \<and>
   map_of mycheck_item1 ''eth5'' = None \<and>
   advanced_check_mycheck pair_api ''eth5'' no_levels (Some mycheck_item1) =
     Inr [Result UNKNOWN (Summary ''Item not found in data'')] \<and>
   map_of [(''eth0'', eth0)] ''eth5'' = None \<and>
   check_multi_table_interfaces pair_api [] 100 ''eth5'' default_params (Some [(''eth0'', eth0)]) =
     Inr ([Result UNKNOWN (Summary ''Interface not found'')], [])"
  using missing_entity_unknown
    [where status_sec = "[(''eth0'', status_entry_eth0)]" and item = "''eth5''"
       and traffic_sec = "[(''eth0'', traffic_entry_eth0)]" and api = pair_api
       and value_store = "[]" and now = 100 and mycheck_sec = mycheck_item1
       and api' = pair_api and ps' = no_levels and interfaces = "[(''eth0'', eth0)]"
       and api'' = pair_api and value_store' = "[]" and ps = default_params]
  by (simp add: mycheck_item1_def)

section \<open>The loops of the multi-table parser\<close>

text \<open>
  The entity built for a row of the primary table: a field that comes from an auxiliary
  table takes its default where the index is not a key of that table's lookup.
\<close>

lemma interface_of_row_fields:
  assumes "interface_of_row ifx cbi row = Inr e"
  shows "index e = row ! 0" and "descr e = row ! 1"
    and "name e = (case map_of ifx (row ! 0) of None \<Rightarrow> [] | Some x \<Rightarrow> ifx_name x)"
    and "if_alias e = (case map_of ifx (row ! 0) of None \<Rightarrow> [] | Some x \<Rightarrow> ifx_alias x)"
    and "in_octets e = (case map_of cbi (row ! 0) of None \<Rightarrow> 0 | Some c \<Rightarrow> cnt_in_octets c)"
    and "out_octets e = (case map_of cbi (row ! 0) of None \<Rightarrow> 0 | Some c \<Rightarrow> cnt_out_octets c)"
    and "in_errors e = (case map_of cbi (row ! 0) of None \<Rightarrow> 0 | Some c \<Rightarrow> cnt_in_errors c)"
    and "out_errors e = (case map_of cbi (row ! 0) of None \<Rightarrow> 0 | Some c \<Rightarrow> cnt_out_errors c)"
  using assms by (auto simp: interface_of_row_def Let_def split: sum.splits)

lemma interface_of_row_error: "interface_of_row ifx cbi row = Inl e \<Longrightarrow> e = ValueError"
  by (auto simp: interface_of_row_def Let_def split: sum.splits dest: int_if_isdigit_error)

lemma interface_of_row_converts:
  assumes "\<forall>k \<in> {2, 3, 4, 5}. \<not> isdigit (row ! k) \<or>
             list_all is_digit (row ! k) \<and> length (row ! k) \<le> max_str_digits"
  shows "\<exists>e. interface_of_row ifx cbi row = Inr e"
proof -
  obtain t where t: "int_if_isdigit (row ! 2) = Inr t"
    using assms int_if_isdigit_converts [of "row ! 2"] by auto
  obtain sp where sp: "int_if_isdigit (row ! 3) = Inr sp"
    using assms int_if_isdigit_converts [of "row ! 3"] by auto
  obtain a where a: "int_if_isdigit (row ! 4) = Inr a"
    using assms int_if_isdigit_converts [of "row ! 4"] by auto
  obtain b where b: "int_if_isdigit (row ! 5) = Inr b"
    using assms int_if_isdigit_converts [of "row ! 5"] by auto
  show ?thesis using t sp a b by (simp add: interface_of_row_def Let_def)
qed

lemma if_table_row_valid:
  "6 \<le> length row \<Longrightarrow> row ! 1 \<noteq> [] \<Longrightarrow> interface_of_row ifx cbi row = Inr e \<Longrightarrow>
   if_table_row ifx cbi row acc = Inr (AList.update (display_name e) e acc)"
  by (simp add: if_table_row_def)

lemma if_table_row_cases:
  assumes "if_table_row ifx cbi row acc = Inr acc'"
  shows "acc' = acc \<and> \<not> (6 \<le> length row \<and> row ! 1 \<noteq> []) \<or>
         (\<exists>e. 6 \<le> length row \<and> row ! 1 \<noteq> [] \<and> interface_of_row ifx cbi row = Inr e \<and>
              acc' = AList.update (display_name e) e acc)"
  using assms by (auto simp: if_table_row_def split: if_splits sum.splits)

lemma if_table_row_error: "if_table_row ifx cbi row acc = Inl e \<Longrightarrow> e = ValueError"
  by (auto simp: if_table_row_def split: if_splits sum.splits dest: interface_of_row_error)

lemma if_table_loop_keyed:
  "for_rows (if_table_row ifx cbi) rows acc = Inr res \<Longrightarrow>
   \<forall>p \<in> set acc. display_name (snd p) = fst p \<Longrightarrow>
   \<forall>p \<in> set res. display_name (snd p) = fst p"
proof (induction rows arbitrary: acc)
  case Nil
  then show ?case by simp
next
  case (Cons r rows)
  obtain acc' where step: "if_table_row ifx cbi r acc = Inr acc'"
    and rest: "for_rows (if_table_row ifx cbi) rows acc' = Inr res"
    using for_rows_Cons_Inr [OF Cons.prems(1)] by blast
  have "\<forall>p \<in> set acc'. display_name (snd p) = fst p"
    using if_table_row_cases [OF step] Cons.prems(2) by (auto dest!: set_update_cases)
  then show ?case using Cons.IH [OF rest] by blast
qed

lemma if_table_loop_distinct:
  "for_rows (if_table_row ifx cbi) rows acc = Inr res \<Longrightarrow>
   distinct (map fst acc) \<Longrightarrow> distinct (map fst res)"
proof (induction rows arbitrary: acc)
  case Nil
  then show ?case by simp
next
  case (Cons r rows)
  obtain acc' where step: "if_table_row ifx cbi r acc = Inr acc'"
    and rest: "for_rows (if_table_row ifx cbi) rows acc' = Inr res"
    using for_rows_Cons_Inr [OF Cons.prems(1)] by blast
  have "distinct (map fst acc')"
    using if_table_row_cases [OF step] Cons.prems(2) by (auto simp: distinct_update)
  then show ?case using Cons.IH [OF rest] by blast
qed

lemma if_table_loop_keys_mono:
  "for_rows (if_table_row ifx cbi) rows acc = Inr res \<Longrightarrow>
   k \<in> fst ` set acc \<Longrightarrow> k \<in> fst ` set res"
proof (induction rows arbitrary: acc)
  case Nil
  then show ?case by simp
next
  case (Cons r rows)
  obtain acc' where step: "if_table_row ifx cbi r acc = Inr acc'"
    and rest: "for_rows (if_table_row ifx cbi) rows acc' = Inr res"
    using for_rows_Cons_Inr [OF Cons.prems(1)] by blast
  have "k \<in> fst ` set acc'"
    using if_table_row_cases [OF step] Cons.prems(2)
    by (elim disjE exE conjE) (simp_all add: dom_update)
  then show ?case using Cons.IH [OF rest] by blast
qed

text \<open>A loop that completes has converted every row with six columns and a description.\<close>

lemma if_table_loop_row_converts:
  "for_rows (if_table_row ifx cbi) rows acc = Inr res \<Longrightarrow>
   row \<in> set rows \<Longrightarrow> 6 \<le> length row \<Longrightarrow> row ! 1 \<noteq> [] \<Longrightarrow>
   \<exists>e. interface_of_row ifx cbi row = Inr e"
proof (induction rows arbitrary: acc)
  case Nil
  then show ?case by simp
next
  case (Cons r rows)
  obtain acc' where step: "if_table_row ifx cbi r acc = Inr acc'"
    and rest: "for_rows (if_table_row ifx cbi) rows acc' = Inr res"
    using for_rows_Cons_Inr [OF Cons.prems(1)] by blast
  show ?case
  proof (cases "row = r")
    case True
    then show ?thesis using if_table_row_cases [OF step] Cons.prems by auto
  next
    case False
    then have "row \<in> set rows" using Cons.prems(2) by simp
    then show ?thesis using Cons.IH [OF rest] Cons.prems by blast
  qed
qed

lemma if_table_loop_key_present:
  "for_rows (if_table_row ifx cbi) rows acc = Inr res \<Longrightarrow>
   row \<in> set rows \<Longrightarrow> 6 \<le> length row \<Longrightarrow> row ! 1 \<noteq> [] \<Longrightarrow>
   interface_of_row ifx cbi row = Inr e \<Longrightarrow>
   display_name e \<in> fst ` set res"
proof (induction rows arbitrary: acc)
  case Nil
  then show ?case by simp
next
  case (Cons r rows)
  obtain acc' where step: "if_table_row ifx cbi r acc = Inr acc'"
    and rest: "for_rows (if_table_row ifx cbi) rows acc' = Inr res"
    using for_rows_Cons_Inr [OF Cons.prems(1)] by blast
  show ?case
  proof (cases "row = r")
    case True
    then have "acc' = AList.update (display_name e) e acc"
      using step if_table_row_valid [of row ifx cbi e acc] Cons.prems by simp
    then have "display_name e \<in> fst ` set acc'" by (simp add: dom_update)
    then show ?thesis using if_table_loop_keys_mono [OF rest] by blast
  next
    case False
    then have "row \<in> set rows" using Cons.prems(2) by simp
    then show ?thesis using Cons.IH [OF rest] Cons.prems by blast
  qed
qed

lemma if_table_loop_lookup_kept:
  "for_rows (if_table_row ifx cbi) rows acc = Inr res \<Longrightarrow>
   \<forall>r \<in> set rows. \<forall>e. 6 \<le> length r \<and> r ! 1 \<noteq> [] \<and> interface_of_row ifx cbi r = Inr e
      \<longrightarrow> display_name e \<noteq> k \<Longrightarrow>
   map_of res k = map_of acc k"
proof (induction rows arbitrary: acc)
  case Nil
  then show ?case by simp
next
  case (Cons r rows)
  obtain acc' where step: "if_table_row ifx cbi r acc = Inr acc'"
    and rest: "for_rows (if_table_row ifx cbi) rows acc' = Inr res"
    using for_rows_Cons_Inr [OF Cons.prems(1)] by blast
  have "map_of acc' k = map_of acc k"
    using if_table_row_cases [OF step] Cons.prems(2) by (auto simp: update_conv')
  moreover have "map_of res k = map_of acc' k"
    using Cons.IH [OF rest] Cons.prems(2) by simp
  ultimately show ?case by simp
qed

lemma if_table_loop_last_wins:
  assumes loop: "for_rows (if_table_row ifx cbi) (pre @ row # post) acc = Inr res"
    and valid: "6 \<le> length row" "row ! 1 \<noteq> []"
    and e: "interface_of_row ifx cbi row = Inr e"
    and later: "\<forall>r \<in> set post. \<forall>e'. 6 \<le> length r \<and> r ! 1 \<noteq> [] \<and>
                 interface_of_row ifx cbi r = Inr e' \<longrightarrow> display_name e' \<noteq> display_name e"
  shows "map_of res (display_name e) = Some e"
proof -
  obtain mid where "for_rows (if_table_row ifx cbi) (row # post) mid = Inr res"
    using for_rows_append_Inr [OF loop] by blast
  then have "for_rows (if_table_row ifx cbi) post (AList.update (display_name e) e mid) = Inr res"
    using if_table_row_valid [OF valid e] by simp
  from if_table_loop_lookup_kept [OF this later]
  show ?thesis by (simp add: update_conv')
qed

text \<open>An entity is a value of the result only for the last row with its display name.\<close>

lemma if_table_loop_replaced:
  assumes loop: "for_rows (if_table_row ifx cbi) (pre @ row # post) [] = Inr res"
    and valid: "6 \<le> length row" "row ! 1 \<noteq> []"
    and e: "interface_of_row ifx cbi row = Inr e"
    and later: "\<forall>r \<in> set post. \<forall>e'. 6 \<le> length r \<and> r ! 1 \<noteq> [] \<and>
                 interface_of_row ifx cbi r = Inr e' \<longrightarrow> display_name e' \<noteq> display_name e"
    and other: "e' \<noteq> e" "display_name e' = display_name e"
  shows "e' \<notin> snd ` set res"
proof
  assume "e' \<in> snd ` set res"
  then obtain k where mem: "(k, e') \<in> set res" by auto
  have "\<forall>p \<in> set res. display_name (snd p) = fst p"
    using if_table_loop_keyed [OF loop] by simp
  then have "k = display_name e" using mem other(2) by auto
  moreover have "distinct (map fst res)"
    using if_table_loop_distinct [OF loop] by simp
  ultimately have "map_of res (display_name e) = Some e'"
    using mem by simp
  then show False
    using if_table_loop_last_wins [OF loop valid e later] other(1) by simp
qed

lemma ifx_row_total: "\<exists>acc'. ifx_row row acc = Inr acc'"
  by (simp add: ifx_row_def)

lemma ifx_loop_absent:
  "for_rows ifx_row tbl acc = Inr ifx \<Longrightarrow>
   \<forall>r \<in> set tbl. 3 \<le> length r \<longrightarrow> r ! 0 \<noteq> k \<Longrightarrow>
   map_of ifx k = map_of acc k"
proof (induction tbl arbitrary: acc)
  case Nil
  then show ?case by simp
next
  case (Cons r tbl)
  show ?case
  proof (cases "3 \<le> length r")
    case True
    then have "ifx_row r acc =
        Inr (AList.update (r ! 0) \<lparr>ifx_name = r ! 1, ifx_alias = r ! 2\<rparr> acc)"
      by (simp add: ifx_row_def)
    then have "for_rows ifx_row tbl
        (AList.update (r ! 0) \<lparr>ifx_name = r ! 1, ifx_alias = r ! 2\<rparr> acc) = Inr ifx"
      using Cons.prems(1) by simp
    from Cons.IH [OF this] Cons.prems(2) True show ?thesis by (auto simp: update_conv')
  next
    case False
    then have "ifx_row r acc = Inr acc"
      by (simp add: ifx_row_def)
    then have "for_rows ifx_row tbl acc = Inr ifx"
      using Cons.prems(1) by simp
    from Cons.IH [OF this] Cons.prems(2) show ?thesis by simp
  qed
qed

lemma counters_row_cases:
  assumes "counters_row r acc = Inr acc'"
  shows "acc' = acc \<and> \<not> 5 \<le> length r \<or>
         (\<exists>c. 5 \<le> length r \<and> acc' = AList.update (r ! 0) c acc)"
  using assms by (auto simp: counters_row_def split: if_splits sum.splits)

lemma counters_row_error: "counters_row r acc = Inl e \<Longrightarrow> e = ValueError"
  by (auto simp: counters_row_def split: if_splits sum.splits dest: int_if_nonempty_error)

lemma counters_loop_absent:
  "for_rows counters_row tbl acc = Inr cbi \<Longrightarrow>
   \<forall>r \<in> set tbl. 5 \<le> length r \<longrightarrow> r ! 0 \<noteq> k \<Longrightarrow>
   map_of cbi k = map_of acc k"
proof (induction tbl arbitrary: acc)
  case Nil
  then show ?case by simp
next
  case (Cons r tbl)
  obtain acc' where step: "counters_row r acc = Inr acc'" and
    rest: "for_rows counters_row tbl acc' = Inr cbi"
    using for_rows_Cons_Inr [OF Cons.prems(1)] by blast
  have "map_of acc' k = map_of acc k"
    using counters_row_cases [OF step] Cons.prems(2) by (auto simp: update_conv')
  moreover have "map_of cbi k = map_of acc' k"
    using Cons.IH [OF rest] Cons.prems(2) by simp
  ultimately show ?case by simp
qed

lemma parse_multi_table_interfaces_eq:
  assumes "for_rows ifx_row ifx_table [] = Inr ifx"
    and "for_rows counters_row if_counters [] = Inr cbi"
    and "for_rows (if_table_row ifx cbi) if_table [] = Inr parsed"
  shows "parse_multi_table_interfaces (if_table # ifx_table # if_counters # others) =
           Inr (nonempty_or_None parsed)"
  using assms by (simp add: parse_multi_table_interfaces_def)

text \<open>The only exception of the multi-table parser is the \<open>ValueError\<close> of a conversion.\<close>

lemma parse_multi_table_interfaces_error:
  assumes "parse_multi_table_interfaces ts = Inl e"
  shows "e = ValueError"
proof -
  obtain ifx where ifx: "for_rows ifx_row (ts ! 1) [] = Inr ifx"
    using for_rows_total [of ifx_row "ts ! 1" "[]"] ifx_row_total by blast
  show ?thesis
  proof (cases "for_rows counters_row (ts ! 2) []")
    case (Inl e')
    then have "e' = ValueError"
      using for_rows_error [of counters_row "ts ! 2" "[]" e'] counters_row_error by blast
    with Inl assms ifx show ?thesis
      by (auto simp: parse_multi_table_interfaces_def Let_def split: if_splits)
  next
    case (Inr cbi)
    show ?thesis
    proof (cases "for_rows (if_table_row ifx cbi) (ts ! 0) []")
      case (Inl e')
      then have "e' = ValueError"
        using for_rows_error [of "if_table_row ifx cbi" "ts ! 0" "[]" e'] if_table_row_error
        by blast
      with Inl Inr assms ifx show ?thesis
        by (auto simp: parse_multi_table_interfaces_def Let_def split: if_splits)
    next
      case loop: (Inr parsed)
      with Inr assms ifx show ?thesis
        by (auto simp: parse_multi_table_interfaces_def Let_def split: if_splits)
    qed
  qed
qed

text \<open>
  The multi-table parser returns when every counter cell of a counter row with five
  columns is empty or a number, and every cell of a primary row that \<open>isdigit\<close> accepts is
  made of decimal digits within the limit; the rows of the ifXTable cannot make it raise.
\<close>

lemma int_if_nonempty_converts:
  "x = [] \<or> py_int x \<noteq> None \<Longrightarrow> \<exists>v. int_if_nonempty x = Inr v"
  by (auto simp: int_if_nonempty_def int_of_str_def)

lemma counters_row_converts:
  assumes "5 \<le> length r \<longrightarrow> (\<forall>k \<in> {1, 2, 3, 4}. r ! k = [] \<or> py_int (r ! k) \<noteq> None)"
  shows "\<exists>acc'. counters_row r acc = Inr acc'"
proof (cases "5 \<le> length r")
  case True
  with assms have ok: "\<forall>k \<in> {1, 2, 3, 4}. r ! k = [] \<or> py_int (r ! k) \<noteq> None" by simp
  obtain a where a: "int_if_nonempty (r ! 1) = Inr a"
    using ok int_if_nonempty_converts [of "r ! 1"] by auto
  obtain b where b: "int_if_nonempty (r ! 2) = Inr b"
    using ok int_if_nonempty_converts [of "r ! 2"] by auto
  obtain c where c: "int_if_nonempty (r ! 3) = Inr c"
    using ok int_if_nonempty_converts [of "r ! 3"] by auto
  obtain d where d: "int_if_nonempty (r ! 4) = Inr d"
    using ok int_if_nonempty_converts [of "r ! 4"] by auto
  show ?thesis using True a b c d by (simp add: counters_row_def)
next
  case False
  then show ?thesis by (simp add: counters_row_def)
qed

lemma counters_loop_converts:
  "\<forall>r \<in> set tbl. 5 \<le> length r \<longrightarrow>
     (\<forall>k \<in> {1, 2, 3, 4}. r ! k = [] \<or> py_int (r ! k) \<noteq> None) \<Longrightarrow>
   \<exists>cbi. for_rows counters_row tbl acc = Inr cbi"
proof (induction tbl arbitrary: acc)
  case Nil
  show ?case by simp
next
  case (Cons r tbl)
  obtain acc' where "counters_row r acc = Inr acc'"
    using counters_row_converts [of r acc] Cons.prems by auto
  moreover obtain cbi where "for_rows counters_row tbl acc' = Inr cbi"
    using Cons.IH [of acc'] Cons.prems by auto
  ultimately show ?case by simp
qed

lemma if_table_row_converts:
  assumes "6 \<le> length r \<and> r ! 1 \<noteq> [] \<longrightarrow>
     (\<forall>k \<in> {2, 3, 4, 5}. \<not> isdigit (r ! k) \<or>
        list_all is_digit (r ! k) \<and> length (r ! k) \<le> max_str_digits)"
  shows "\<exists>acc'. if_table_row ifx cbi r acc = Inr acc'"
proof (cases "6 \<le> length r \<and> r ! 1 \<noteq> []")
  case True
  with assms obtain e where "interface_of_row ifx cbi r = Inr e"
    using interface_of_row_converts [of r ifx cbi] by auto
  with True show ?thesis by (simp add: if_table_row_def)
next
  case False
  then show ?thesis by (auto simp: if_table_row_def)
qed

lemma if_table_loop_converts:
  "\<forall>r \<in> set tbl. 6 \<le> length r \<and> r ! 1 \<noteq> [] \<longrightarrow>
     (\<forall>k \<in> {2, 3, 4, 5}. \<not> isdigit (r ! k) \<or>
        list_all is_digit (r ! k) \<and> length (r ! k) \<le> max_str_digits) \<Longrightarrow>
   \<exists>parsed. for_rows (if_table_row ifx cbi) tbl acc = Inr parsed"
proof (induction tbl arbitrary: acc)
  case Nil
  show ?case by simp
next
  case (Cons r tbl)
  obtain acc' where "if_table_row ifx cbi r acc = Inr acc'"
    using if_table_row_converts [of r ifx cbi acc] Cons.prems by auto
  moreover obtain parsed where "for_rows (if_table_row ifx cbi) tbl acc' = Inr parsed"
    using Cons.IH [of acc'] Cons.prems by auto
  ultimately show ?case by simp
qed

lemma parse_multi_table_interfaces_returns:
  assumes "\<forall>r \<in> set if_counters. 5 \<le> length r \<longrightarrow>
             (\<forall>k \<in> {1, 2, 3, 4}. r ! k = [] \<or> py_int (r ! k) \<noteq> None)"
    and "\<forall>r \<in> set if_table. 6 \<le> length r \<and> r ! 1 \<noteq> [] \<longrightarrow>
           (\<forall>k \<in> {2, 3, 4, 5}. \<not> isdigit (r ! k) \<or>
              list_all is_digit (r ! k) \<and> length (r ! k) \<le> max_str_digits)"
  shows "\<exists>res. parse_multi_table_interfaces (if_table # ifx_table # if_counters # others) =
               Inr res"
proof -
  obtain ifx where ifx: "for_rows ifx_row ifx_table [] = Inr ifx"
    using for_rows_total [of ifx_row ifx_table "[]"] ifx_row_total by blast
  obtain cbi where cnt: "for_rows counters_row if_counters [] = Inr cbi"
    using counters_loop_converts [OF assms(1)] by blast
  obtain parsed where "for_rows (if_table_row ifx cbi) if_table [] = Inr parsed"
    using if_table_loop_converts [OF assms(2)] by blast
  from parse_multi_table_interfaces_eq [OF ifx cnt this] show ?thesis by blast
qed

section \<open>What the table parsers return\<close>

text \<open>
  Claim C9: a table parse function returns \<open>None\<close> or a mapping with at least one entity; it
  never returns an empty mapping.  Each of them ends in \<open>parsed if parsed else None\<close>.
  \<open>parse_interface_traffic\<close> and the \<open>parse_mycheck\<close> with items return on every table;
  \<open>parse_interface_status\<close> and the multi-table parser return or raise \<open>ValueError\<close>.
\<close>

theorem parse_never_empty_mapping:
  "parse_interface_status t \<noteq> Inr (Some []) \<and>
   parse_interface_traffic t \<noteq> Inr (Some []) \<and>
   advanced_parse_mycheck py_float t \<noteq> Inr (Some []) \<and>
   parse_multi_table_interfaces ts \<noteq> Inr (Some []) \<and>
   (parse_interface_status t = Inl ValueError \<or>
    parse_interface_status t = Inr None \<or>
      (\<exists>m. parse_interface_status t = Inr (Some m) \<and> m \<noteq> [])) \<and>
   (parse_interface_traffic t = Inr None \<or>
      (\<exists>m. parse_interface_traffic t = Inr (Some m) \<and> m \<noteq> [])) \<and>
   (advanced_parse_mycheck py_float t = Inr None \<or>
      (\<exists>m. advanced_parse_mycheck py_float t = Inr (Some m) \<and> m \<noteq> [])) \<and>
   (parse_multi_table_interfaces ts = Inl ValueError \<or>
    parse_multi_table_interfaces ts = Inr None \<or>
      (\<exists>m. parse_multi_table_interfaces ts = Inr (Some m) \<and> m \<noteq> []))"
proof -
  have a: "parse_interface_status t \<noteq> Inr (Some [])"
    by (auto simp: parse_interface_status_def nonempty_or_None_not_empty split: sum.splits)
  have b: "parse_interface_traffic t \<noteq> Inr (Some [])"
    by (auto simp: parse_interface_traffic_def nonempty_or_None_not_empty split: sum.splits)
  have c: "advanced_parse_mycheck py_float t \<noteq> Inr (Some [])"
    by (auto simp: advanced_parse_mycheck_def nonempty_or_None_not_empty split: sum.splits)
  have d: "parse_multi_table_interfaces ts \<noteq> Inr (Some [])"
    by (auto simp: parse_multi_table_interfaces_def Let_def nonempty_or_None_not_empty
        split: sum.splits)
  have a': "parse_interface_status t = Inl ValueError \<or>
    parse_interface_status t = Inr None \<or>
      (\<exists>m. parse_interface_status t = Inr (Some m) \<and> m \<noteq> [])"
    using result_cases [OF a] parse_interface_status_error [of t] by auto
  have b': "parse_interface_traffic t = Inr None \<or>
      (\<exists>m. parse_interface_traffic t = Inr (Some m) \<and> m \<noteq> [])"
    using result_cases [OF b] parse_interface_traffic_total [of t] by auto
  have c': "advanced_parse_mycheck py_float t = Inr None \<or>
      (\<exists>m. advanced_parse_mycheck py_float t = Inr (Some m) \<and> m \<noteq> [])"
    using result_cases [OF c] advanced_parse_mycheck_total [of py_float t] by auto
  have d': "parse_multi_table_interfaces ts = Inl ValueError \<or>
    parse_multi_table_interfaces ts = Inr None \<or>
      (\<exists>m. parse_multi_table_interfaces ts = Inr (Some m) \<and> m \<noteq> [])"
    using result_cases [OF d] parse_multi_table_interfaces_error [of ts] by auto
  show ?thesis using a b c d a' b' c' d' by blast
qed

text \<open>
  A table whose only row has no description gives \<open>None\<close>, a table with one good row a
  mapping with one entity; a status cell that is the superscript two makes
  \<open>parse_interface_status\<close> raise, and no empty mapping is returned there either.
\<close>

theorem parse_never_empty_mapping_witness:
  "parse_interface_status [[''1'', [], ''1'', ''1'']] = Inr None \<and>
   parse_interface_status [[''1'', ''eth0'', [CHR 0xB2], ''1'']] = Inl ValueError \<and>
   parse_interface_status [[''1'', ''eth0'', [CHR 0xB2], ''1'']] \<noteq> Inr (Some []) \<and>
   (\<exists>m. parse_interface_traffic [[''2'', ''eth1'', ''7'', ''5'']] = Inr (Some m) \<and> m \<noteq> []) \<and>
   advanced_parse_mycheck (\<lambda>cell. None) [[''item1'', ''x'', ''OK'']] = Inr None \<and>
   (\<exists>m. parse_multi_table_interfaces [[row_eth0], [], []] = Inr (Some m) \<and> m \<noteq> [])"
proof -
  have a: "parse_interface_status [[''1'', [], ''1'', ''1'']] = Inr None"
    by (simp add: parse_interface_status_def interface_status_row_def nonempty_or_None_def)
  have a2: "parse_interface_status [[''1'', ''eth0'', [CHR 0xB2], ''1'']] = Inl ValueError"
    by (simp add: parse_interface_status_def interface_status_row_def conversion_defs)
  have b: "parse_interface_traffic [[''2'', ''eth1'', ''7'', ''5'']] \<noteq> Inr None"
    by (simp add: parse_interface_traffic_def interface_traffic_row_def conversion_defs
        nonempty_or_None_def)
  have c: "advanced_parse_mycheck (\<lambda>cell. None) [[''item1'', ''x'', ''OK'']] = Inr None"
    by (simp add: advanced_parse_mycheck_def mycheck_line_def nonempty_or_None_def)
  have d: "parse_multi_table_interfaces [[row_eth0], [], []] \<noteq> Inl ValueError \<and>
           parse_multi_table_interfaces [[row_eth0], [], []] \<noteq> Inr None"
    by (simp add: parse_multi_table_interfaces_def if_table_row_def interface_of_row_def
        conversion_defs row_eth0_def nonempty_or_None_def)
  show ?thesis
    using a a2 b c d
      parse_never_empty_mapping [of "[[''2'', ''eth1'', ''7'', ''5'']]" "\<lambda>cell. None"
        "[[row_eth0], [], []]"]
      parse_never_empty_mapping [of "[[''1'', ''eth0'', [CHR 0xB2], ''1'']]"]
    by blast
qed

section \<open>Correlation of the tables\<close>

lemma if_table_loop_dropped:
  assumes loop: "for_rows (if_table_row ifx cbi) (pre @ row # post) [] = Inr res"
    and e: "interface_of_row ifx cbi row = Inr e"
    and indices: "\<forall>r \<in> set post. r ! 0 \<noteq> row ! 0"
    and later: "\<exists>r \<in> set post. 6 \<le> length r \<and> r ! 1 \<noteq> [] \<and>
                 (\<exists>e'. interface_of_row ifx cbi r = Inr e' \<and> display_name e' = display_name e)"
  shows "e \<notin> snd ` set res"
proof -
  let ?P = "\<lambda>r. 6 \<le> length r \<and> r ! 1 \<noteq> [] \<and>
                 (\<exists>e'. interface_of_row ifx cbi r = Inr e' \<and> display_name e' = display_name e)"
  obtain ys r zs where post: "post = ys @ r # zs" and r: "?P r" and zs: "\<forall>z \<in> set zs. \<not> ?P z"
    using split_list_last_prop [of post ?P] later by blast
  obtain e' where e': "interface_of_row ifx cbi r = Inr e'"
    and same: "display_name e' = display_name e"
    using r by blast
  have "index e' = r ! 0" and "index e = row ! 0"
    using interface_of_row_fields(1) [OF e'] interface_of_row_fields(1) [OF e] by simp_all
  moreover have "r ! 0 \<noteq> row ! 0" using indices post by simp
  ultimately have differ: "e \<noteq> e'" by auto
  have loop': "for_rows (if_table_row ifx cbi) ((pre @ row # ys) @ r # zs) [] = Inr res"
    using loop post by simp
  have no_later: "\<forall>z \<in> set zs. \<forall>e''. 6 \<le> length z \<and> z ! 1 \<noteq> [] \<and>
                    interface_of_row ifx cbi z = Inr e'' \<longrightarrow> display_name e'' \<noteq> display_name e'"
    using zs same by auto
  from if_table_loop_replaced [OF loop' _ _ e' no_later differ same [symmetric]] r
  show ?thesis by blast
qed

text \<open>
  Claim C5, as the code has it.  Where the three loops of the parser complete, a row of the
  primary table with six columns and a description gives an entity whether or not its
  index has a row in the auxiliary tables: the fields that come from an auxiliary table
  without that index take their defaults (the empty string for \<open>name\<close> and \<open>alias\<close>, zero
  for the four counters), the entity is stored under its display name, and that display
  name is a key of the result.  The entity itself is a value of the result when no later
  row of the primary table has the same display name; when a later row with another index
  has it, the entity is replaced and is not a value of the result.
\<close>

theorem auxiliary_absent_defaults:
  assumes ifx: "for_rows ifx_row ifx_table [] = Inr ifx_by_index"
    and cnt: "for_rows counters_row if_counters [] = Inr counters_by_index"
    and loop: "for_rows (if_table_row ifx_by_index counters_by_index) if_table [] = Inr parsed"
    and tbl: "if_table = pre @ row # post"
    and valid: "6 \<le> length row" "row ! 1 \<noteq> []"
  shows "parse_multi_table_interfaces (if_table # ifx_table # if_counters # others) =
           Inr (Some parsed) \<and>
         (\<exists>e. interface_of_row ifx_by_index counters_by_index row = Inr e \<and>
              index e = row ! 0 \<and> descr e = row ! 1 \<and>
              display_name e \<in> fst ` set parsed \<and>
              ((\<forall>r \<in> set ifx_table. 3 \<le> length r \<longrightarrow> r ! 0 \<noteq> row ! 0) \<longrightarrow>
                 name e = [] \<and> if_alias e = [] \<and> display_name e = row ! 1) \<and>
              ((\<forall>r \<in> set if_counters. 5 \<le> length r \<longrightarrow> r ! 0 \<noteq> row ! 0) \<longrightarrow>
                 in_octets e = 0 \<and> out_octets e = 0 \<and> in_errors e = 0 \<and> out_errors e = 0) \<and>
              ((\<forall>r \<in> set post. \<forall>e'. 6 \<le> length r \<and> r ! 1 \<noteq> [] \<and>
                   interface_of_row ifx_by_index counters_by_index r = Inr e' \<longrightarrow>
                   display_name e' \<noteq> display_name e) \<longrightarrow>
                 map_of parsed (display_name e) = Some e) \<and>
              ((\<forall>r \<in> set post. r ! 0 \<noteq> row ! 0) \<and>
               (\<exists>r \<in> set post. 6 \<le> length r \<and> r ! 1 \<noteq> [] \<and>
                  (\<exists>e'. interface_of_row ifx_by_index counters_by_index r = Inr e' \<and>
                        display_name e' = display_name e)) \<longrightarrow>
                 e \<notin> snd ` set parsed))"
proof -
  have mem: "row \<in> set if_table" using tbl by simp
  obtain e where e: "interface_of_row ifx_by_index counters_by_index row = Inr e"
    using if_table_loop_row_converts [OF loop mem valid] by blast
  from if_table_loop_key_present [OF loop mem valid e]
  have key: "display_name e \<in> fst ` set parsed" .
  then have "parsed \<noteq> []" by auto
  then have res:
    "parse_multi_table_interfaces (if_table # ifx_table # if_counters # others) =
       Inr (Some parsed)"
    using parse_multi_table_interfaces_eq [OF ifx cnt loop] by (simp add: nonempty_or_None_def)
  note fields = interface_of_row_fields [OF e]
  have no_ifx: "name e = [] \<and> if_alias e = [] \<and> display_name e = row ! 1"
    if "\<forall>r \<in> set ifx_table. 3 \<le> length r \<longrightarrow> r ! 0 \<noteq> row ! 0"
  proof -
    have "map_of ifx_by_index (row ! 0) = None"
      using ifx_loop_absent [OF ifx that] by simp
    then show ?thesis using fields by (simp add: display_name_def)
  qed
  have no_cnt: "in_octets e = 0 \<and> out_octets e = 0 \<and> in_errors e = 0 \<and> out_errors e = 0"
    if "\<forall>r \<in> set if_counters. 5 \<le> length r \<longrightarrow> r ! 0 \<noteq> row ! 0"
  proof -
    have "map_of counters_by_index (row ! 0) = None"
      using counters_loop_absent [OF cnt that] by simp
    then show ?thesis using fields by simp
  qed
  have last: "map_of parsed (display_name e) = Some e"
    if "\<forall>r \<in> set post. \<forall>e'. 6 \<le> length r \<and> r ! 1 \<noteq> [] \<and>
          interface_of_row ifx_by_index counters_by_index r = Inr e' \<longrightarrow>
          display_name e' \<noteq> display_name e"
    using if_table_loop_last_wins [OF loop [unfolded tbl] valid e that] .
  have dropped: "e \<notin> snd ` set parsed"
    if "(\<forall>r \<in> set post. r ! 0 \<noteq> row ! 0) \<and>
        (\<exists>r \<in> set post. 6 \<le> length r \<and> r ! 1 \<noteq> [] \<and>
           (\<exists>e'. interface_of_row ifx_by_index counters_by_index r = Inr e' \<and>
                 display_name e' = display_name e))"
    using if_table_loop_dropped [OF loop [unfolded tbl] e] that by blast
  show ?thesis
    using res e fields(1,2) key no_ifx no_cnt last dropped by blast
qed

text \<open>
  The interface with index 1 has no row in the auxiliary tables: it is parsed with an
  empty name and alias and with counters zero, and found under its description.
\<close>

theorem auxiliary_absent_defaults_witness:
  "for_rows ifx_row ifx_table_example [] = Inr ifx_by_index_example \<and>
   for_rows counters_row if_counters_example [] = Inr counters_by_index_example \<and>
   for_rows (if_table_row ifx_by_index_example counters_by_index_example)
     [row_eth0, row_eth1] [] = Inr [(''eth0'', eth0_defaults), (''Gi0/2'', eth1_down)] \<and>
   [row_eth0, row_eth1] = [] @ row_eth0 # [row_eth1] \<and>
   6 \<le> length row_eth0 \<and> row_eth0 ! 1 \<noteq> [] \<and>
   parse_multi_table_interfaces [[row_eth0, row_eth1], ifx_table_example, if_counters_example] =
     Inr (Some [(''eth0'', eth0_defaults), (''Gi0/2'', eth1_down)]) \<and>
   (\<exists>e. index e = ''1'' \<and> descr e = ''eth0'' \<and> name e = [] \<and> if_alias e = [] \<and>
        in_octets e = 0 \<and> out_octets e = 0 \<and> in_errors e = 0 \<and> out_errors e = 0 \<and>
        map_of [(''eth0'', eth0_defaults), (''Gi0/2'', eth1_down)] ''eth0'' = Some e)"
proof -
  let ?parsed = "[(''eth0'', eth0_defaults), (''Gi0/2'', eth1_down)]"
  have ifx: "for_rows ifx_row ifx_table_example [] = Inr ifx_by_index_example"
    by (simp add: ifx_table_example_def ifx_by_index_example_def ifx_row_def)
  have cnt: "for_rows counters_row if_counters_example [] = Inr counters_by_index_example"
    by (simp add: if_counters_example_def counters_by_index_example_def counters_row_def
        conversion_defs)
  have loop: "for_rows (if_table_row ifx_by_index_example counters_by_index_example)
     [row_eth0, row_eth1] [] = Inr ?parsed"
    by (simp add: if_table_row_def interface_of_row_def Let_def conversion_defs
        display_name_def row_eth0_def row_eth1_def ifx_by_index_example_def
        counters_by_index_example_def eth0_defaults_def eth1_down_def)
  have tbl: "[row_eth0, row_eth1] = [] @ row_eth0 # [row_eth1]"
    by simp
  have valid: "6 \<le> length row_eth0" "row_eth0 ! 1 \<noteq> []"
    by (simp_all add: row_eth0_def)
  from auxiliary_absent_defaults [OF ifx cnt loop tbl valid, of "[]"]
  obtain e where res:
    "parse_multi_table_interfaces [[row_eth0, row_eth1], ifx_table_example, if_counters_example] =
       Inr (Some ?parsed)"
    and e: "interface_of_row ifx_by_index_example counters_by_index_example row_eth0 = Inr e"
    and fields: "index e = row_eth0 ! 0" "descr e = row_eth0 ! 1"
    and no_ifx: "(\<forall>r \<in> set ifx_table_example. 3 \<le> length r \<longrightarrow> r ! 0 \<noteq> row_eth0 ! 0) \<longrightarrow>
        name e = [] \<and> if_alias e = [] \<and> display_name e = row_eth0 ! 1"
    and no_cnt: "(\<forall>r \<in> set if_counters_example. 5 \<le> length r \<longrightarrow> r ! 0 \<noteq> row_eth0 ! 0) \<longrightarrow>
        in_octets e = 0 \<and> out_octets e = 0 \<and> in_errors e = 0 \<and> out_errors e = 0"
    and last: "(\<forall>r \<in> set [row_eth1]. \<forall>e'. 6 \<le> length r \<and> r ! 1 \<noteq> [] \<and>
         interface_of_row ifx_by_index_example counters_by_index_example r = Inr e' \<longrightarrow>
         display_name e' \<noteq> display_name e) \<longrightarrow> map_of ?parsed (display_name e) = Some e"
    by blast
  have defaults: "name e = [] \<and> if_alias e = [] \<and> display_name e = ''eth0''"
    using no_ifx by (simp add: ifx_table_example_def row_eth0_def)
  have zeros: "in_octets e = 0 \<and> out_octets e = 0 \<and> in_errors e = 0 \<and> out_errors e = 0"
    using no_cnt by (simp add: if_counters_example_def row_eth0_def)
  have "\<forall>e'. interface_of_row ifx_by_index_example counters_by_index_example row_eth1 = Inr e'
          \<longrightarrow> display_name e' \<noteq> ''eth0''"
    by (auto simp: display_name_def row_eth1_def ifx_by_index_example_def
        dest!: interface_of_row_fields(3))
  then have stored: "map_of ?parsed ''eth0'' = Some e"
    using last defaults by simp
  have "index e = ''1''" and "descr e = ''eth0''"
    using fields by (simp_all add: row_eth0_def)
  then show ?thesis
    using ifx cnt loop tbl valid res defaults zeros stored by blast
qed

text \<open>
  Two interfaces with the indices 1 and 7 and the description \<open>eth0\<close>.  Without a row in
  the ifXTable the interface with index 1 is not in the result: the one with index 7 has
  taken its key.  With the ifXTable row that names it \<open>Gi0/1\<close> it is in the result.
\<close>

theorem entity_lost_without_ifx_name:
  "parse_multi_table_interfaces [[row_eth0, row_eth0_again], [], []] =
     Inr (Some [(''eth0'', eth0_again)]) \<and>
   index eth0_again = ''7'' \<and>
   parse_multi_table_interfaces [[row_eth0, row_eth0_again], [[''1'', ''Gi0/1'', []]], []] =
     Inr (Some [(''Gi0/1'', eth0_defaults\<lparr>name := ''Gi0/1''\<rparr>), (''eth0'', eth0_again)]) \<and>
   index (eth0_defaults\<lparr>name := ''Gi0/1''\<rparr>) = ''1''"
  by (simp add: parse_multi_table_interfaces_def if_table_row_def interface_of_row_def
      Let_def ifx_row_def conversion_defs display_name_def nonempty_or_None_def
      row_eth0_def row_eth0_again_def eth0_defaults_def eth0_again_def)

text \<open>
  Claim C10: the entities of the multi-table parser are keyed by display name (the name
  if it is not empty, else the alias, else the description), not by index.  When two rows
  of the primary table with different indices have the same display name, the entity of
  the later row replaces the entity of the earlier one: where the loops of the parser
  complete, the result maps the display name to the entity of the last such row, the
  earlier entity is not a value of the result, the keys of the result are distinct and
  each is the display name of its entity.
\<close>

theorem display_name_collision:
  assumes ifx: "for_rows ifx_row ifx_table [] = Inr ifx_by_index"
    and cnt: "for_rows counters_row if_counters [] = Inr counters_by_index"
    and loop: "for_rows (if_table_row ifx_by_index counters_by_index) if_table [] = Inr parsed"
    and tbl: "if_table = pre @ r1 # mid @ r2 # post"
    and valid1: "6 \<le> length r1" "r1 ! 1 \<noteq> []"
    and valid2: "6 \<le> length r2" "r2 ! 1 \<noteq> []"
    and e1: "interface_of_row ifx_by_index counters_by_index r1 = Inr e1"
    and e2: "interface_of_row ifx_by_index counters_by_index r2 = Inr e2"
    and indices: "r1 ! 0 \<noteq> r2 ! 0"
    and same: "display_name e1 = display_name e2"
    and later: "\<forall>r \<in> set post. \<forall>e'. 6 \<le> length r \<and> r ! 1 \<noteq> [] \<and>
                  interface_of_row ifx_by_index counters_by_index r = Inr e' \<longrightarrow>
                  display_name e' \<noteq> display_name e2"
  shows "parse_multi_table_interfaces (if_table # ifx_table # if_counters # others) =
           Inr (Some parsed) \<and>
         map_of parsed (display_name e2) = Some e2 \<and>
         e1 \<notin> snd ` set parsed \<and>
         distinct (map fst parsed) \<and>
         (\<forall>p \<in> set parsed. fst p = display_name (snd p)) \<and>
         display_name e2 =
           (if name e2 \<noteq> [] then name e2
            else if if_alias e2 \<noteq> [] then if_alias e2 else descr e2)"
proof -
  have loop2: "for_rows (if_table_row ifx_by_index counters_by_index)
                 ((pre @ r1 # mid) @ r2 # post) [] = Inr parsed"
    using loop tbl by simp
  have stored: "map_of parsed (display_name e2) = Some e2"
    using if_table_loop_last_wins [OF loop2 valid2 e2 later] .
  then have "parsed \<noteq> []" by auto
  then have res:
    "parse_multi_table_interfaces (if_table # ifx_table # if_counters # others) =
       Inr (Some parsed)"
    using parse_multi_table_interfaces_eq [OF ifx cnt loop] by (simp add: nonempty_or_None_def)
  have dist: "distinct (map fst parsed)"
    using if_table_loop_distinct [OF loop] by simp
  have keyed: "\<forall>p \<in> set parsed. display_name (snd p) = fst p"
    using if_table_loop_keyed [OF loop] by simp
  have "index e1 = r1 ! 0" and "index e2 = r2 ! 0"
    using interface_of_row_fields(1) [OF e1] interface_of_row_fields(1) [OF e2] by simp_all
  then have differ: "e1 \<noteq> e2" using indices by auto
  have gone: "e1 \<notin> snd ` set parsed"
    using if_table_loop_replaced [OF loop2 valid2 e2 later differ same] .
  show ?thesis
    using res stored gone dist keyed by (auto simp: display_name_def)
qed

text \<open>
  Two rows with the indices 1 and 7 and the description \<open>eth0\<close>, and no auxiliary data:
  the result has one entity \<open>eth0\<close>, the one with index 7.
\<close>

theorem display_name_collision_witness:
  "for_rows ifx_row [] [] = Inr [] \<and>
   for_rows counters_row [] [] = Inr [] \<and>
   for_rows (if_table_row [] []) [row_eth0, row_eth0_again] [] = Inr [(''eth0'', eth0_again)] \<and>
   [row_eth0, row_eth0_again] = [] @ row_eth0 # [] @ row_eth0_again # [] \<and>
   6 \<le> length row_eth0 \<and> row_eth0 ! 1 \<noteq> [] \<and>
   6 \<le> length row_eth0_again \<and> row_eth0_again ! 1 \<noteq> [] \<and>
   interface_of_row [] [] row_eth0 = Inr eth0_defaults \<and>
   interface_of_row [] [] row_eth0_again = Inr eth0_again \<and>
   row_eth0 ! 0 \<noteq> row_eth0_again ! 0 \<and>
   display_name eth0_defaults = display_name eth0_again \<and>
   parse_multi_table_interfaces [[row_eth0, row_eth0_again], [], []] =
     Inr (Some [(''eth0'', eth0_again)]) \<and>
   map_of [(''eth0'', eth0_again)] (display_name eth0_again) = Some eth0_again \<and>
   eth0_defaults \<notin> snd ` set [(''eth0'', eth0_again)] \<and>
   distinct (map fst [(''eth0'', eth0_again)])"
proof -
  have ifx: "for_rows ifx_row [] [] = Inr []" and cnt: "for_rows counters_row [] [] = Inr []"
    by simp_all
  have e1: "interface_of_row [] [] row_eth0 = Inr eth0_defaults"
    by (simp add: interface_of_row_def Let_def conversion_defs row_eth0_def eth0_defaults_def)
  have e2: "interface_of_row [] [] row_eth0_again = Inr eth0_again"
    by (simp add: interface_of_row_def Let_def conversion_defs row_eth0_again_def
        eth0_again_def)
  have valid1: "6 \<le> length row_eth0" "row_eth0 ! 1 \<noteq> []"
    and valid2: "6 \<le> length row_eth0_again" "row_eth0_again ! 1 \<noteq> []"
    and indices: "row_eth0 ! 0 \<noteq> row_eth0_again ! 0"
    by (simp_all add: row_eth0_def row_eth0_again_def)
  have same: "display_name eth0_defaults = display_name eth0_again"
    by (simp add: display_name_def eth0_defaults_def eth0_again_def)
  have loop: "for_rows (if_table_row [] []) [row_eth0, row_eth0_again] [] =
                Inr [(''eth0'', eth0_again)]"
    using e1 e2 valid1 valid2
    by (simp add: if_table_row_def display_name_def eth0_defaults_def eth0_again_def)
  have tbl: "[row_eth0, row_eth0_again] = [] @ row_eth0 # [] @ row_eth0_again # []"
    by simp
  have later: "\<forall>r \<in> set []. \<forall>e'. 6 \<le> length r \<and> r ! 1 \<noteq> [] \<and>
                 interface_of_row [] [] r = Inr e' \<longrightarrow> display_name e' \<noteq> display_name eth0_again"
    by simp
  from display_name_collision
    [OF ifx cnt loop tbl valid1 valid2 e1 e2 indices same later, of "[]"]
  show ?thesis
    using ifx cnt loop tbl valid1 valid2 e1 e2 indices same by blast
qed

section \<open>Discovery\<close>

lemma discover_multi_table_interfaces_set:
  "distinct (map fst s) \<Longrightarrow>
   discover_multi_table_interfaces (Some s) = Inr d \<Longrightarrow>
   set d = {Service (Some k) [(''discovered_speed'', speed e),
                              (''discovered_oper_status'', oper_status e)] | k e.
            map_of s k = Some e \<and> if_type e \<in> {6, 117, 62, 69, 135, 136}}"
  by (auto simp: discover_multi_table_interfaces_def image_iff) force+

text \<open>
  Claim C7: discovery is idempotent and deterministic.  \<open>discover_multi_table_interfaces\<close>
  reads the section only (no value store, no clock) and changes nothing, so a second run
  on the same section yields the same services.  The services depend on the mapping alone,
  not on the order of its keys: two sections that are the same mapping give the same set
  of item names, each with the same \<open>discovered_speed\<close> and \<open>discovered_oper_status\<close>, which
  are the speed and the operational status of the entity of a physical interface type.
\<close>

theorem discovery_deterministic:
  assumes "distinct (map fst s1)" and "distinct (map fst s2)" and "map_of s1 = map_of s2"
  shows "\<exists>d1 d2. discover_multi_table_interfaces (Some s1) = Inr d1 \<and>
                 discover_multi_table_interfaces (Some s2) = Inr d2 \<and>
                 set d1 = set d2 \<and>
                 (s1 = s2 \<longrightarrow> d1 = d2) \<and>
                 set d1 =
                   {Service (Some k) [(''discovered_speed'', speed e),
                                      (''discovered_oper_status'', oper_status e)] | k e.
                    map_of s1 k = Some e \<and> if_type e \<in> {6, 117, 62, 69, 135, 136}}"
proof -
  obtain d1 where d1: "discover_multi_table_interfaces (Some s1) = Inr d1"
    by (simp add: discover_multi_table_interfaces_def)
  obtain d2 where d2: "discover_multi_table_interfaces (Some s2) = Inr d2"
    by (simp add: discover_multi_table_interfaces_def)
  note set1 = discover_multi_table_interfaces_set [OF assms(1) d1]
  note set2 = discover_multi_table_interfaces_set [OF assms(2) d2]
  have "set d1 = set d2" unfolding set1 set2 assms(3) ..
  moreover have "s1 = s2 \<longrightarrow> d1 = d2" using d1 d2 by auto
  ultimately show ?thesis using d1 d2 set1 by blast
qed

theorem discovery_deterministic_witness:
  "distinct (map fst [(''eth0'', eth0), (''Gi0/2'', eth1_down), (''lo'', lo0)]) \<and>
   distinct (map fst [(''lo'', lo0), (''Gi0/2'', eth1_down), (''eth0'', eth0)]) \<and>
   map_of [(''eth0'', eth0), (''Gi0/2'', eth1_down), (''lo'', lo0)] =
     map_of [(''lo'', lo0), (''Gi0/2'', eth1_down), (''eth0'', eth0)] \<and>
   (\<exists>d1 d2.
      discover_multi_table_interfaces
        (Some [(''eth0'', eth0), (''Gi0/2'', eth1_down), (''lo'', lo0)]) = Inr d1 \<and>
      discover_multi_table_interfaces
        (Some [(''lo'', lo0), (''Gi0/2'', eth1_down), (''eth0'', eth0)]) = Inr d2 \<and>
      set d1 = set d2)"
proof -
  have h1: "distinct (map fst [(''eth0'', eth0), (''Gi0/2'', eth1_down), (''lo'', lo0)])"
    by simp
  have h2: "distinct (map fst [(''lo'', lo0), (''Gi0/2'', eth1_down), (''eth0'', eth0)])"
    by simp
  have h3: "map_of [(''eth0'', eth0), (''Gi0/2'', eth1_down), (''lo'', lo0)] =
     map_of [(''lo'', lo0), (''Gi0/2'', eth1_down), (''eth0'', eth0)]"
    by (auto simp: fun_eq_iff)
  show ?thesis
    using h1 h2 h3 discovery_deterministic [OF h1 h2 h3] by blast
qed

lemma discover_multi_table_interfaces_example:
  "discover_multi_table_interfaces (Some [(''eth0'', eth0), (''Gi0/2'', eth1_down), (''lo'', lo0)]) =
     Inr [Service (Some ''eth0'') [(''discovered_speed'', 1000), (''discovered_oper_status'', 1)],
          Service (Some ''Gi0/2'') [(''discovered_speed'', 100), (''discovered_oper_status'', 2)]]"
  by (simp add: discover_multi_table_interfaces_def eth0_def eth1_down_def lo0_def)

section \<open>The status of an interface that is administratively down\<close>

lemma check_multi_table_interfaces_parts:
  "map_of s item = Some interface \<Longrightarrow>
   check_multi_table_interfaces api value_store now item ps (Some s) =
     Inr (status_check ps interface @ speed_check api ps interface @
          fst (traffic_rates api value_store now item ps interface) @
          fst (error_rates api (snd (traffic_rates api value_store now item ps interface))
                 now item ps interface),
          snd (error_rates api (snd (traffic_rates api value_store now item ps interface))
                 now item ps interface))"
  by (simp add: check_multi_table_interfaces_def split: prod.splits)

text \<open>
  Claim C8: for an interface whose \<open>admin_status\<close> is not 1, the status result of
  \<open>check_interface_status\<close> and of \<open>check_multi_table_interfaces\<close> has state \<open>OK\<close> whatever
  the operational status is, and its text ends in \<open>(admin down)\<close>.  It is the only result of
  the first function and the first result of the second.
\<close>

theorem admin_down_status_ok:
  "(map_of s item = Some data \<and> status_admin_status data \<noteq> 1 \<longrightarrow>
      check_interface_status item (Some s) =
        Inr [Result OK
               (Summary (''Operational status: '' @
                         (case oper_status_map (status_oper_status data) of
                            None \<Rightarrow> ''invalid'' | Some p \<Rightarrow> snd p) @
                         '' (admin down)''))]) \<and>
   (map_of s' item' = Some interface \<and> admin_status interface \<noteq> 1 \<longrightarrow>
      (\<exists>rest vs'.
         check_multi_table_interfaces api value_store now item' ps (Some s') =
           Inr (Result OK
                  (Summary (''Status: '' @
                            (case oper_status_map (oper_status interface) of
                               None \<Rightarrow> ''invalid'' | Some p \<Rightarrow> snd p) @
                            '' (admin down)'')) # rest, vs')))"
proof -
  have "status_check ps interface =
          [Result OK
             (Summary (''Status: '' @
                       (case oper_status_map (oper_status interface) of
                          None \<Rightarrow> ''invalid'' | Some p \<Rightarrow> snd p) @
                       '' (admin down)''))]"
    if "admin_status interface \<noteq> 1"
    using that by (simp add: status_check_def is_admin_up_def split: option.splits prod.splits)
  then show ?thesis
    by (auto simp: check_multi_table_interfaces_parts check_interface_status_def
        split: option.splits prod.splits)
qed

text \<open>An interface that is down and administratively down: \<open>OK\<close>, "down (admin down)".\<close>

theorem admin_down_status_ok_witness:
  "map_of [(''eth1'', status_entry_eth1)] ''eth1'' = Some status_entry_eth1 \<and>
   status_admin_status status_entry_eth1 \<noteq> 1 \<and>
   check_interface_status ''eth1'' (Some [(''eth1'', status_entry_eth1)]) =
     Inr [Result OK (Summary ''Operational status: down (admin down)'')] \<and>
   map_of [(''Gi0/2'', eth1_down)] ''Gi0/2'' = Some eth1_down \<and>
   admin_status eth1_down \<noteq> 1 \<and>
   (\<exists>rest vs'.
      check_multi_table_interfaces pair_api [] 100 ''Gi0/2'' default_params
        (Some [(''Gi0/2'', eth1_down)]) =
        Inr (Result OK (Summary ''Status: down (admin down)'') # rest, vs'))"
proof -
  have h1: "map_of [(''eth1'', status_entry_eth1)] ''eth1'' = Some status_entry_eth1 \<and>
            status_admin_status status_entry_eth1 \<noteq> 1"
    by (simp add: status_entry_eth1_def)
  have h2: "map_of [(''Gi0/2'', eth1_down)] ''Gi0/2'' = Some eth1_down \<and>
            admin_status eth1_down \<noteq> 1"
    by (simp add: eth1_down_def)
  have t1: "(case oper_status_map (status_oper_status status_entry_eth1) of
               None \<Rightarrow> ''invalid'' | Some p \<Rightarrow> snd p) = ''down''"
    by (simp add: status_entry_eth1_def oper_status_map_def)
  have t2: "(case oper_status_map (oper_status eth1_down) of
               None \<Rightarrow> ''invalid'' | Some p \<Rightarrow> snd p) = ''down''"
    by (simp add: eth1_down_def oper_status_map_def)
  show ?thesis
    using h1 h2
      admin_down_status_ok [where s = "[(''eth1'', status_entry_eth1)]" and item = "''eth1''"
        and data = status_entry_eth1
        and s' = "[(''Gi0/2'', eth1_down)]" and item' = "''Gi0/2''"
        and interface = eth1_down and api = pair_api and value_store = "[]" and now = 100
        and ps = default_params]
    unfolding t1 t2 by simp
qed

section \<open>A rate that is not yet available\<close>

text \<open>
  Claim C2, as the code has it: when \<open>get_rate\<close> raises \<open>GetRateError\<close> in a \<open>try\<close> block,
  what the block yields is benign.  \<open>check_interface_traffic\<close> yields the single result \<open>OK\<close>
  with the summary "Collecting data..." and returns.  In \<open>check_multi_table_interfaces\<close> the
  traffic block yields the single result \<open>OK\<close> with the text "Traffic: collecting data...",
  passed as a notice and not as a summary, and the error block yields nothing; the check
  yields the status and speed results, then what the two blocks yield.  So no result
  yielded for the missing rate has the state \<open>WARN\<close>, \<open>CRIT\<close> or \<open>UNKNOWN\<close>.
\<close>

theorem rate_not_available_benign:
  "(map_of s item = Some data \<and>
    fst (get_rates api value_store now (''in_octets.'' @ item) (traffic_in_octets data)
           (''out_octets.'' @ item) (traffic_out_octets data)) = None \<longrightarrow>
      (\<exists>vs'. check_interface_traffic api value_store now item (Some s) =
               Inr ([Result OK (Summary ''Collecting data...'')], vs'))) \<and>
   (fst (get_rates api' value_store' now (''in_octets.'' @ item) (in_octets interface)
           (''out_octets.'' @ item) (out_octets interface)) = None \<longrightarrow>
      fst (traffic_rates api' value_store' now item ps interface) =
        [Result OK (Notice ''Traffic: collecting data...'')]) \<and>
   (fst (get_rates api' value_store'' now (''in_errors.'' @ item) (in_errors interface)
           (''out_errors.'' @ item) (out_errors interface)) = None \<longrightarrow>
      fst (error_rates api' value_store'' now item ps interface) = []) \<and>
   (map_of s' item = Some interface \<longrightarrow>
      check_multi_table_interfaces api' value_store' now item ps (Some s') =
        Inr (status_check ps interface @ speed_check api' ps interface @
             fst (traffic_rates api' value_store' now item ps interface) @
             fst (error_rates api' (snd (traffic_rates api' value_store' now item ps interface))
                    now item ps interface),
             snd (error_rates api' (snd (traffic_rates api' value_store' now item ps interface))
                    now item ps interface)))"
proof (intro conjI impI)
  assume "map_of s item = Some data \<and>
    fst (get_rates api value_store now (''in_octets.'' @ item) (traffic_in_octets data)
           (''out_octets.'' @ item) (traffic_out_octets data)) = None"
  then show "\<exists>vs'. check_interface_traffic api value_store now item (Some s) =
               Inr ([Result OK (Summary ''Collecting data...'')], vs')"
    by (auto simp: check_interface_traffic_def split: prod.splits option.splits)
next
  assume "fst (get_rates api' value_store' now (''in_octets.'' @ item) (in_octets interface)
           (''out_octets.'' @ item) (out_octets interface)) = None"
  then show "fst (traffic_rates api' value_store' now item ps interface) =
        [Result OK (Notice ''Traffic: collecting data...'')]"
    by (auto simp: traffic_rates_def split: prod.splits option.splits)
next
  assume "fst (get_rates api' value_store'' now (''in_errors.'' @ item) (in_errors interface)
           (''out_errors.'' @ item) (out_errors interface)) = None"
  then show "fst (error_rates api' value_store'' now item ps interface) = []"
    by (auto simp: error_rates_def split: prod.splits option.splits)
next
  assume "map_of s' item = Some interface"
  then show "check_multi_table_interfaces api' value_store' now item ps (Some s') =
        Inr (status_check ps interface @ speed_check api' ps interface @
             fst (traffic_rates api' value_store' now item ps interface) @
             fst (error_rates api' (snd (traffic_rates api' value_store' now item ps interface))
                    now item ps interface),
             snd (error_rates api' (snd (traffic_rates api' value_store' now item ps interface))
                    now item ps interface))"
    by (rule check_multi_table_interfaces_parts)
qed

text \<open>
  The first check of \<open>eth0\<close> on an empty value store: the rate is not available, and the
  result for it is a notice; no result has "Traffic: collecting data..." as its summary.
\<close>

theorem collecting_is_a_notice:
  "fst (get_rates pair_api [] 100 (''in_octets.'' @ ''eth0'') (in_octets eth0)
          (''out_octets.'' @ ''eth0'') (out_octets eth0)) = None \<and>
   check_multi_table_interfaces pair_api [] 100 ''eth0'' default_params (Some [(''eth0'', eth0)]) =
     Inr ([Result OK (Summary ''Status: up''),
           Result OK (Notice ''Speed: bandwidth''),
           Result OK (Notice ''Traffic: collecting data...'')],
          [(''in_octets.eth0'', 100, 12), (''in_errors.eth0'', 100, 0)]) \<and>
   Result OK (Summary ''Traffic: collecting data...'') \<notin>
     set [Result OK (Summary ''Status: up''),
          Result OK (Notice ''Speed: bandwidth''),
          Result OK (Notice ''Traffic: collecting data...'')]"
  by (simp add: check_multi_table_interfaces_def traffic_rates_def error_rates_def get_rates_def
      pair_api_def store_api_def store_get_rate_def eth0_def default_params_def status_check_def
      speed_check_def oper_status_map_def is_admin_up_def)

theorem rate_not_available_benign_witness:
  "map_of [(''eth0'', traffic_entry_eth0)] ''eth0'' = Some traffic_entry_eth0 \<and>
   fst (get_rates pair_api [] 100 (''in_octets.'' @ ''eth0'') (traffic_in_octets traffic_entry_eth0)
          (''out_octets.'' @ ''eth0'') (traffic_out_octets traffic_entry_eth0)) = None \<and>
   (\<exists>vs'. check_interface_traffic pair_api [] 100 ''eth0'' (Some [(''eth0'', traffic_entry_eth0)]) =
            Inr ([Result OK (Summary ''Collecting data...'')], vs')) \<and>
   fst (get_rates pair_api [] 100 (''in_octets.'' @ ''eth0'') (in_octets eth0)
          (''out_octets.'' @ ''eth0'') (out_octets eth0)) = None \<and>
   fst (traffic_rates pair_api [] 100 ''eth0'' default_params eth0) =
     [Result OK (Notice ''Traffic: collecting data...'')] \<and>
   fst (get_rates pair_api [] 100 (''in_errors.'' @ ''eth0'') (in_errors eth0)
          (''out_errors.'' @ ''eth0'') (out_errors eth0)) = None \<and>
   fst (error_rates pair_api [] 100 ''eth0'' default_params eth0) = [] \<and>
   map_of [(''eth0'', eth0)] ''eth0'' = Some eth0 \<and>
   check_multi_table_interfaces pair_api [] 100 ''eth0'' default_params (Some [(''eth0'', eth0)]) =
     Inr (status_check default_params eth0 @ speed_check pair_api default_params eth0 @
          fst (traffic_rates pair_api [] 100 ''eth0'' default_params eth0) @
          fst (error_rates pair_api (snd (traffic_rates pair_api [] 100 ''eth0'' default_params eth0))
                 100 ''eth0'' default_params eth0),
          snd (error_rates pair_api (snd (traffic_rates pair_api [] 100 ''eth0'' default_params eth0))
                 100 ''eth0'' default_params eth0))"
proof -
  have h1: "map_of [(''eth0'', traffic_entry_eth0)] ''eth0'' = Some traffic_entry_eth0"
    by simp
  have h2: "fst (get_rates pair_api [] 100 (''in_octets.'' @ ''eth0'')
                   (traffic_in_octets traffic_entry_eth0)
                   (''out_octets.'' @ ''eth0'') (traffic_out_octets traffic_entry_eth0)) = None"
    by (simp add: get_rates_def pair_api_def store_api_def store_get_rate_def)
  have h3: "fst (get_rates pair_api [] 100 (''in_octets.'' @ ''eth0'') (in_octets eth0)
          (''out_octets.'' @ ''eth0'') (out_octets eth0)) = None"
    by (simp add: get_rates_def pair_api_def store_api_def store_get_rate_def)
  have h4: "fst (get_rates pair_api [] 100 (''in_errors.'' @ ''eth0'') (in_errors eth0)
          (''out_errors.'' @ ''eth0'') (out_errors eth0)) = None"
    by (simp add: get_rates_def pair_api_def store_api_def store_get_rate_def)
  have h5: "map_of [(''eth0'', eth0)] ''eth0'' = Some eth0" by simp
  show ?thesis
    using h1 h2 h3 h4 h5
      rate_not_available_benign [where s = "[(''eth0'', traffic_entry_eth0)]"
        and item = "''eth0''" and data = traffic_entry_eth0 and api = pair_api
        and value_store = "[]" and now = 100 and api' = pair_api and value_store' = "[]"
        and interface = eth0 and value_store'' = "[]" and ps = default_params
        and s' = "[(''eth0'', eth0)]"]
    by blast
qed

text \<open>The second check, ten seconds later: both rates are there, with their metrics.\<close>

lemma check_interface_traffic_second_sample:
  "check_interface_traffic pair_api
     [(''in_octets.eth0'', 100, 200), (''out_octets.eth0'', 100, 1000)] 110 ''eth0''
     (Some [(''eth0'', traffic_entry_eth0)]) =
     Inr ([Result OK (Summary ''In: bandwidth, Out: bandwidth''),
           Metric ''if_in_bps'' 640, Metric ''if_out_bps'' 800],
          [(''in_octets.eth0'', 110, 1000), (''out_octets.eth0'', 110, 2000)])"
  by (simp add: check_interface_traffic_def get_rates_def pair_api_def store_api_def
      store_get_rate_def traffic_entry_eth0_def)

section \<open>Thresholds\<close>

text \<open>
  Claim C3, as the code has it.  \<open>check_thresholds\<close> evaluates a value against a pair
  (warning, critical) inclusively and tests the critical bound first: in the upper
  direction a value equal to the critical bound is critical, a value equal to the warning
  bound and below the critical one is a warning, and a value that reaches both bounds is
  critical; the same with \<open>\<le>\<close> in the lower direction.  The limit checks that
  \<open>check_process_count\<close> and \<open>check_backup\<close> write by hand also test the critical condition
  first, but they compare strictly: a count equal to \<open>min_count\<close> or \<open>max_count\<close> and an
  age equal to \<open>max_age_hours\<close> are not flagged.
\<close>

theorem thresholds_inclusive_limits_strict:
  "(val = c \<longrightarrow> check_thresholds val (Some w) (Some c) False = EXIT_CRITICAL) \<and>
   (val = w \<and> val < c \<longrightarrow> check_thresholds val (Some w) (Some c) False = EXIT_WARNING) \<and>
   (c \<le> val \<and> w \<le> val \<longrightarrow> check_thresholds val (Some w) (Some c) False = EXIT_CRITICAL) \<and>
   (val = c \<longrightarrow> check_thresholds val (Some w) (Some c) True = EXIT_CRITICAL) \<and>
   (val = w \<and> c < val \<longrightarrow> check_thresholds val (Some w) (Some c) True = EXIT_WARNING) \<and>
   (val \<le> c \<and> val \<le> w \<longrightarrow> check_thresholds val (Some w) (Some c) True = EXIT_CRITICAL) \<and>
   line_status (check_process_count process_name min_count max_count (Inr count)) =
     (if count < min_count then STATUS_CRIT
      else if max_count < count then STATUS_WARN else STATUS_OK) \<and>
   line_status (check_backup str_float backup_dir pattern max_age_hours min_size_mb svc
                  (Newest age_hours size_mb)) =
     (if of_int max_age_hours < age_hours then STATUS_CRIT
      else if size_mb < of_int min_size_mb then STATUS_WARN else STATUS_OK)"
  by (simp add: check_thresholds_def check_process_count_def check_backup_def Let_def
      output_crit_def output_warn_def output_ok_def output_result_def output_line_def)

text \<open>
  Twenty processes with \<open>max_count\<close> 20, one process with \<open>min_count\<close> 1, a backup of 25
  hours with \<open>max_age_hours\<close> 25: each is \<open>OK\<close>, not in the worse category.
\<close>

theorem limit_checks_are_strict:
  "line_status (check_process_count ''nginx'' 1 20 (Inr 20)) = STATUS_OK \<and>
   line_status (check_process_count ''nginx'' 1 20 (Inr 20)) \<noteq> STATUS_WARN \<and>
   line_status (check_process_count ''nginx'' 1 20 (Inr 1)) = STATUS_OK \<and>
   line_status (check_process_count ''nginx'' 1 20 (Inr 1)) \<noteq> STATUS_CRIT \<and>
   line_status (check_backup (\<lambda>x. ''float'') ''/var/backups'' ''*.tar.gz'' 25 10 ''Backup Status''
                  (Newest 25 50)) = STATUS_OK \<and>
   line_status (check_backup (\<lambda>x. ''float'') ''/var/backups'' ''*.tar.gz'' 25 10 ''Backup Status''
                  (Newest 25 50)) \<noteq> STATUS_CRIT"
  by (simp add: check_process_count_def check_backup_def Let_def
      output_crit_def output_warn_def output_ok_def output_result_def output_line_def
      STATUS_OK_def STATUS_WARN_def STATUS_CRIT_def)

theorem thresholds_inclusive_limits_strict_witness:
  "check_thresholds 90 (Some 80) (Some 90) False = EXIT_CRITICAL \<and>
   (80::real) < 90 \<and> check_thresholds 80 (Some 80) (Some 90) False = EXIT_WARNING \<and>
   (90::real) \<le> 95 \<and> (80::real) \<le> 95 \<and>
   check_thresholds 95 (Some 80) (Some 90) False = EXIT_CRITICAL \<and>
   check_thresholds 5 (Some 10) (Some 5) True = EXIT_CRITICAL \<and>
   (5::real) < 10 \<and> check_thresholds 10 (Some 10) (Some 5) True = EXIT_WARNING \<and>
   (3::real) \<le> 5 \<and> (3::real) \<le> 10 \<and>
   check_thresholds 3 (Some 10) (Some 5) True = EXIT_CRITICAL"
  using thresholds_inclusive_limits_strict [where val = 90 and w = 80 and c = 90]
    thresholds_inclusive_limits_strict [where val = 80 and w = 80 and c = 90]
    thresholds_inclusive_limits_strict [where val = 95 and w = 80 and c = 90]
    thresholds_inclusive_limits_strict [where val = 5 and w = 10 and c = 5]
    thresholds_inclusive_limits_strict [where val = 10 and w = 10 and c = 5]
    thresholds_inclusive_limits_strict [where val = 3 and w = 10 and c = 5]
  by simp

text \<open>The scenario of the specification: levels (80, 90), upper direction.\<close>

lemma check_thresholds_scenario:
  "check_thresholds 85 (Some 80) (Some 90) False = EXIT_WARNING \<and>
   check_thresholds 95 (Some 80) (Some 90) False = EXIT_CRITICAL \<and>
   check_thresholds 50 (Some 80) (Some 90) False = EXIT_OK"
  by (simp add: check_thresholds_def)

section \<open>No data\<close>

lemma parse_multi_table_interfaces_too_few:
  "length ts < 3 \<Longrightarrow> parse_multi_table_interfaces ts = Inr None"
  by (simp add: parse_multi_table_interfaces_def)

text \<open>
  Claim C6, as the code has it: on an empty table (for the multi-table parser also on
  fewer than three tables, or three empty ones) every parse function returns \<open>None\<close> and
  does not raise.  The plugins with a single service take \<open>None\<close> as a valid state: their
  discovery yields no service and their check yields one result, \<open>UNKNOWN\<close>.
\<close>

theorem no_data_downstream:
  "parse_interface_status [] = Inr None \<and>
   parse_interface_traffic [] = Inr None \<and>
   advanced_parse_mycheck py_float [] = Inr None \<and>
   simple_parse_mycheck [] = None \<and>
   parse_device_setup [] = None \<and>
   parse_multi_table_interfaces [] = Inr None \<and>
   parse_multi_table_interfaces [[], []] = Inr None \<and>
   parse_multi_table_interfaces [[], [], []] = Inr None \<and>
   simple_discover_mycheck None = [] \<and>
   simple_check_mycheck None = [Result UNKNOWN (Summary ''No data'')] \<and>
   discover_device_setup None = [] \<and>
   check_device_setup None = [Result UNKNOWN (Summary ''No SNMP data received'')]"
  by (simp add: parse_interface_status_def parse_interface_traffic_def advanced_parse_mycheck_def
      simple_parse_mycheck_def parse_device_setup_def parse_multi_table_interfaces_def
      simple_discover_mycheck_def simple_check_mycheck_def discover_device_setup_def
      check_device_setup_def nonempty_or_None_def)

text \<open>
  The discovery and check functions of the plugins with items have no guard for \<open>None\<close>:
  they dereference the section at once.
\<close>

theorem item_functions_raise_on_None:
  "discover_interface_status None = Inl AttributeError \<and>
   check_interface_status ''eth0'' None = Inl AttributeError"
  by (simp add: discover_interface_status_def check_interface_status_def)

end
